theory Spec2Isabelle
  imports Complex_Main
begin

section \<open>The audit tool's data model\<close>

text \<open>
  A shallow embedding of \<^verbatim>\<open>audit_logs/audit_system.py\<close>. The program keeps all of its
  state on disk: the classes \<^verbatim>\<open>CheckpointManager\<close>, \<^verbatim>\<open>PageTester\<close> and
  \<^verbatim>\<open>InventoryAuditSystem\<close> hold only paths and the static page table. The model
  therefore threads one record, the \<open>world\<close>, through every operation: the files of the
  audit directory, and the values the program reads from its environment (clock, uuid,
  HTTP responses).

  Python's \<^verbatim>\<open>str\<close> is modelled by \<open>string\<close>, Python's unbounded \<^verbatim>\<open>int\<close> by \<open>int\<close>,
  \<^verbatim>\<open>None\<close> by \<open>option\<close>, and a raised exception by the left injection of a sum.
  The JSON documents are records with one field per key the program writes.
  \<^verbatim>\<open>AuditLogger.log\<close> only prints and appends to \<^verbatim>\<open>master_audit.log\<close>; it touches none of
  the files below and is left out.
\<close>

subsection \<open>The session document\<close>

text \<open>
  One entry of \<^verbatim>\<open>checkpoint_history\<close>. The three kinds of entry the program writes have
  different key sets: the initial entry has \<^verbatim>\<open>id, timestamp, type, status\<close>, a micro
  checkpoint adds \<^verbatim>\<open>page\<close> and \<^verbatim>\<open>phase\<close>, and a macro checkpoint stores its identifier
  under the key \<^verbatim>\<open>checkpoint_id\<close> instead of \<^verbatim>\<open>id\<close>. The field \<open>cp_id\<close> holds the
  identifier in all three; \<open>cp_type\<close> tells which key it was written under.
\<close>

record checkpoint_info =
  cp_id :: string
  cp_timestamp :: string
  cp_type :: string
  cp_page :: "string option"
  cp_phase :: "string option"
  cp_status :: string

record current_operation =
  op_page :: "string option"
  op_phase :: string
  op_step :: string
  op_started_at :: string

text \<open>
  \<^verbatim>\<open>completion_percentage\<close> is a Python float. The model holds the exact rational the
  float approximates.
\<close>

record progress =
  pages_completed :: "string list"
  pages_in_progress :: "string list"
  pages_remaining :: "string list"
  total_pages :: int
  completion_percentage :: rat

record error_summary =
  critical :: int
  high :: int
  medium :: int
  low :: int
  total :: int

record recovery_metadata =
  browser_state :: string
  session_storage :: string
  network_state :: string
  last_successful_action :: string

record session =
  session_id :: string
  audit_start_time :: string
  last_checkpoint :: "checkpoint_info option"
  current_operation :: current_operation
  progress :: progress
  checkpoint_history :: "checkpoint_info list"
  error_summary :: error_summary
  recovery_metadata :: recovery_metadata

subsection \<open>Test results, page summaries and the final report\<close>

record test_result =
  test :: string
  status :: string
  details :: string

record results_data =
  rd_page :: string
  rd_test_phase :: string
  rd_timestamp :: string
  rd_results :: "test_result list"

text \<open>
  The page summary is a Markdown text; the model keeps the values it is rendered from.
\<close>

record page_summary =
  ps_page :: string
  ps_url :: string
  ps_timestamp :: string
  ps_overall_status :: string
  ps_phase_results :: "string list"

text \<open>The \<^verbatim>\<open>audit_summary\<close> object of the machine-readable final report.\<close>

record audit_summary =
  as_timestamp :: string
  as_session_id :: string
  health_score :: int
  as_total_pages :: int
  completed_pages :: int
  as_completion_percentage :: rat
  errors :: error_summary
  as_status :: string
  report_markdown :: string
  report_json :: string

subsection \<open>HTTP responses\<close>

text \<open>
  What the program reads of a \<^verbatim>\<open>requests.Response\<close>: \<open>status_code\<close>, the value of
  \<^verbatim>\<open>int(response.elapsed.total_seconds() * 1000)\<close>, the raw body \<^verbatim>\<open>response.content\<close>
  (only its length in bytes is used) and the decoded body \<^verbatim>\<open>response.text\<close>.
  \<^verbatim>\<open>requests.get\<close> either returns a response or raises a \<^verbatim>\<open>RequestException\<close>, whose
  \<^verbatim>\<open>str(e)\<close> the program records.
\<close>

record response =
  status_code :: int
  elapsed_ms :: int
  content :: string
  text_body :: string

datatype http_result = Response response | RequestException string

subsection \<open>The world: files and environment\<close>

text \<open>
  Files are optional values or maps from file name to contents. The environment is read
  through four functions, so that every sequence of timestamps, identifiers and responses
  is possible: the clock, \<^verbatim>\<open>uuid.uuid4\<close> and \<^verbatim>\<open>time.time\<close> answer by the number of
  such reads made so far (\<open>ticks\<close>), and \<^verbatim>\<open>requests.get\<close> answers by the number of
  requests made so far (\<open>requests_made\<close>) and the URL.

  \<open>issued\<close> is a specification-only field: the values \<^verbatim>\<open>get_next_checkpoint_counter\<close> has
  returned, oldest first. No operation reads it.
\<close>

record world =
  counter_file :: "int option"
  session_file :: "session option"
  checkpoint_files :: "string \<rightharpoonup> session"
  results_files :: "string \<rightharpoonup> results_data"
  summary_files :: "string \<rightharpoonup> page_summary"
  report_files :: "string \<rightharpoonup> audit_summary"
  ticks :: nat
  requests_made :: nat
  utc_now :: "nat \<Rightarrow> string"
  uuid4 :: "nat \<Rightarrow> string"
  time_time :: "nat \<Rightarrow> int"
  requests_get :: "nat \<Rightarrow> string \<Rightarrow> http_result"
  issued :: "int list"

subsection \<open>Exceptions and sequencing\<close>

datatype error = FileNotFoundError | KeyError | ZeroDivisionError

type_synonym 'a io = "world \<Rightarrow> (error + 'a) \<times> world"

definition return_io :: "'a \<Rightarrow> 'a io" where
  "return_io x w = (Inr x, w)"

definition raise_io :: "error \<Rightarrow> 'a io" where
  "raise_io e w = (Inl e, w)"

text \<open>A raised exception skips the rest; what was written before it stays written.\<close>

definition bind_io :: "'a io \<Rightarrow> ('a \<Rightarrow> 'b io) \<Rightarrow> 'b io" where
  "bind_io m f w = (case m w of (Inl e, w') \<Rightarrow> (Inl e, w') | (Inr x, w') \<Rightarrow> f x w')"

definition datetime_now :: "string io" where
  "datetime_now w = (Inr (utc_now w (ticks w)), w\<lparr>ticks := ticks w + 1\<rparr>)"

definition http_get :: "string \<Rightarrow> http_result io" where
  "http_get u w =
     (Inr (requests_get w (requests_made w) u), w\<lparr>requests_made := requests_made w + 1\<rparr>)"

definition load_session :: "session io" where
  "load_session w = (case session_file w of None \<Rightarrow> (Inl FileNotFoundError, w)
                                            | Some s \<Rightarrow> (Inr s, w))"

definition save_session :: "session \<Rightarrow> unit io" where
  "save_session s w = (Inr (), w\<lparr>session_file := Some s\<rparr>)"

subsection \<open>Strings\<close>

text \<open>
  \<^verbatim>\<open>str.upper\<close> and \<^verbatim>\<open>str.lower\<close> on the ASCII letters; every other character is
  left as it is.
\<close>

definition upper_char :: "char \<Rightarrow> char" where
  "upper_char c =
     (case map_of (zip ''abcdefghijklmnopqrstuvwxyz'' ''ABCDEFGHIJKLMNOPQRSTUVWXYZ'') c of
        Some u \<Rightarrow> u | None \<Rightarrow> c)"

definition lower_char :: "char \<Rightarrow> char" where
  "lower_char c =
     (case map_of (zip ''ABCDEFGHIJKLMNOPQRSTUVWXYZ'' ''abcdefghijklmnopqrstuvwxyz'') c of
        Some l \<Rightarrow> l | None \<Rightarrow> c)"

definition upper :: "string \<Rightarrow> string" where
  "upper s = map upper_char s"

definition lower :: "string \<Rightarrow> string" where
  "lower s = map lower_char s"

text \<open>\<^verbatim>\<open>str(n)\<close> for an integer: decimal digits, with a minus sign when negative.\<close>

definition digit_char :: "nat \<Rightarrow> char" where
  "digit_char d = ''0123456789'' ! d"

function str_nat :: "nat \<Rightarrow> string" where
  "str_nat n = (if n < 10 then [digit_char n] else str_nat (n div 10) @ [digit_char (n mod 10)])"
  by pat_completeness auto
termination
  by (relation "measure id") auto

declare str_nat.simps [simp del]

definition str_int :: "int \<Rightarrow> string" where
  "str_int i = (if i < 0 then ''-'' @ str_nat (nat (- i)) else str_nat (nat i))"

text \<open>
  The format \<^verbatim>\<open>{counter:03d}\<close>: zero-padded to width three, the sign counted in the
  width and written before the zeros.
\<close>

definition zero_pad :: "nat \<Rightarrow> string \<Rightarrow> string" where
  "zero_pad width s = replicate (width - length s) (CHR ''0'') @ s"

definition format_03d :: "int \<Rightarrow> string" where
  "format_03d i = (if i < 0 then ''-'' @ zero_pad 2 (str_nat (nat (- i)))
                   else zero_pad 3 (str_nat (nat i)))"

text \<open>\<^verbatim>\<open>needle in haystack\<close> and \<^verbatim>\<open>haystack.count(needle)\<close> for a non-empty needle.\<close>

definition starts_with :: "string \<Rightarrow> string \<Rightarrow> bool" where
  "starts_with needle hay = (take (length needle) hay = needle)"

fun contains :: "string \<Rightarrow> string \<Rightarrow> bool" where
  "contains needle [] = (needle = [])"
| "contains needle (c # cs) = (starts_with needle (c # cs) \<or> contains needle cs)"

text \<open>
  \<^verbatim>\<open>str.count\<close> counts occurrences that do not overlap, from the left: after a match
  the scan resumes behind it, here by skipping the rest of the matched characters.
\<close>

fun count_from :: "nat \<Rightarrow> string \<Rightarrow> string \<Rightarrow> nat" where
  "count_from skip needle [] = 0"
| "count_from (Suc skip) needle (c # cs) = count_from skip needle cs"
| "count_from 0 needle (c # cs) =
     (if starts_with needle (c # cs) then 1 + count_from (length needle - 1) needle cs
      else count_from 0 needle cs)"

definition count_str :: "string \<Rightarrow> string \<Rightarrow> nat" where
  "count_str hay needle = count_from 0 needle hay"

text \<open>
  \<^verbatim>\<open>round(x, 1)\<close>: to one decimal place, a tie going to the even last digit.
\<close>

definition round1 :: "rat \<Rightarrow> rat" where
  "round1 x =
     (let y = x * 10; f = \<lfloor>y\<rfloor>; d = y - of_int f
      in of_int (if d < 1 / 2 then f else if 1 / 2 < d then f + 1
                 else if even f then f else f + 1) / 10)"

section \<open>CheckpointManager\<close>

text \<open>
  \<^verbatim>\<open>get_next_checkpoint_counter\<close>: the counter file's integer, or 1 when the file does
  not exist; the file is rewritten with the successor and the value read is returned.
\<close>

definition get_next_checkpoint_counter :: "int io" where
  "get_next_checkpoint_counter w =
     (let counter = (case counter_file w of Some c \<Rightarrow> c | None \<Rightarrow> 1)
      in (Inr counter, w\<lparr>counter_file := Some (counter + 1), issued := issued w @ [counter]\<rparr>))"

definition checkpoint_file_name :: "string \<Rightarrow> string" where
  "checkpoint_file_name checkpoint_id = ''checkpoint_'' @ checkpoint_id @ ''.json''"

definition write_checkpoint_file :: "string \<Rightarrow> session \<Rightarrow> unit io" where
  "write_checkpoint_file checkpoint_id s w =
     (Inr (), w\<lparr>checkpoint_files := (checkpoint_files w)(checkpoint_file_name checkpoint_id \<mapsto> s)\<rparr>)"

text \<open>
  The progress update of a successful macro checkpoint: append the page to
  \<^verbatim>\<open>pages_completed\<close> unless it is there, remove its first occurrence from
  \<^verbatim>\<open>pages_remaining\<close> if it is there, and recompute the percentage. The division raises
  when \<^verbatim>\<open>total_pages\<close> is zero.
\<close>

definition update_progress :: "string \<Rightarrow> progress \<Rightarrow> error + progress" where
  "update_progress page_name p =
     (let completed = (if page_name \<notin> set (pages_completed p)
                       then pages_completed p @ [page_name] else pages_completed p);
          remaining = (if page_name \<in> set (pages_remaining p)
                       then remove1 page_name (pages_remaining p) else pages_remaining p)
      in if total_pages p = 0 then Inl ZeroDivisionError
         else Inr (p\<lparr>pages_completed := completed, pages_remaining := remaining,
                     completion_percentage :=
                       round1 (of_int (int (length completed) * 100) / of_int (total_pages p))\<rparr>))"

definition create_checkpoint :: "string \<Rightarrow> string \<Rightarrow> string io" where
  "create_checkpoint page_name st =
     bind_io get_next_checkpoint_counter (\<lambda>counter.
     let checkpoint_id = ''CP_'' @ format_03d counter @ ''_'' @ upper page_name @ ''_COMPLETE'' in
     bind_io datetime_now (\<lambda>timestamp.
     bind_io load_session (\<lambda>s.
     let info = \<lparr>cp_id = checkpoint_id, cp_timestamp = timestamp, cp_type = ''MACRO'',
                 cp_page = Some page_name, cp_phase = Some ''complete'', cp_status = st\<rparr>;
         s1 = s\<lparr>last_checkpoint := Some info,
                checkpoint_history := checkpoint_history s @ [info]\<rparr>
     in
     bind_io (if st = ''SUCCESS''
              then (case update_progress page_name (progress s1) of
                      Inl e \<Rightarrow> raise_io e
                    | Inr p \<Rightarrow> return_io (s1\<lparr>progress := p\<rparr>))
              else return_io s1) (\<lambda>s2.
     bind_io (save_session s2) (\<lambda>_.
     bind_io (write_checkpoint_file checkpoint_id s2) (\<lambda>_.
     return_io checkpoint_id))))))"

definition create_micro_checkpoint :: "string \<Rightarrow> string \<Rightarrow> string \<Rightarrow> string io" where
  "create_micro_checkpoint page_name phase st =
     bind_io get_next_checkpoint_counter (\<lambda>counter.
     let checkpoint_id = ''CP_'' @ format_03d counter @ ''_'' @ upper page_name @ ''_'' @ upper phase in
     bind_io datetime_now (\<lambda>timestamp.
     bind_io load_session (\<lambda>s.
     let info = \<lparr>cp_id = checkpoint_id, cp_timestamp = timestamp, cp_type = ''MICRO'',
                 cp_page = Some page_name, cp_phase = Some phase, cp_status = st\<rparr>
     in
     bind_io (save_session (s\<lparr>checkpoint_history := checkpoint_history s @ [info]\<rparr>)) (\<lambda>_.
     return_io checkpoint_id))))"

section \<open>PageTester\<close>

text \<open>
  \<^verbatim>\<open>session["error_summary"][error_level] += 1\<close> raises \<^verbatim>\<open>KeyError\<close> for a level that
  is not a key of the dictionary; the five keys are those \<^verbatim>\<open>initialize_session\<close> writes.
\<close>

definition increment_level :: "string \<Rightarrow> error_summary \<Rightarrow> error + error_summary" where
  "increment_level error_level e =
     (if error_level = ''critical'' then Inr (e\<lparr>critical := critical e + 1\<rparr>)
      else if error_level = ''high'' then Inr (e\<lparr>high := high e + 1\<rparr>)
      else if error_level = ''medium'' then Inr (e\<lparr>medium := medium e + 1\<rparr>)
      else if error_level = ''low'' then Inr (e\<lparr>low := low e + 1\<rparr>)
      else if error_level = ''total'' then Inr (e\<lparr>total := total e + 1\<rparr>)
      else Inl KeyError)"

definition update_error_count :: "string \<Rightarrow> unit io" where
  "update_error_count error_level =
     bind_io load_session (\<lambda>s.
     case increment_level error_level (error_summary s) of
       Inl e \<Rightarrow> raise_io e
     | Inr es \<Rightarrow> save_session (s\<lparr>error_summary := es\<lparr>total := total es + 1\<rparr>\<rparr>))"

definition results_file_name :: "string \<Rightarrow> string \<Rightarrow> string" where
  "results_file_name page_name test_phase = page_name @ ''_'' @ test_phase @ ''_results.json''"

definition save_test_results :: "string \<Rightarrow> string \<Rightarrow> test_result list \<Rightarrow> unit io" where
  "save_test_results page_name test_phase test_results =
     bind_io datetime_now (\<lambda>timestamp w.
     (Inr (), w\<lparr>results_files := (results_files w)(results_file_name page_name test_phase \<mapsto>
        \<lparr>rd_page = page_name, rd_test_phase = test_phase, rd_timestamp = timestamp,
         rd_results = test_results\<rparr>)\<rparr>))"

definition result :: "string \<Rightarrow> string \<Rightarrow> string \<Rightarrow> test_result" where
  "result t s d = \<lparr>test = t, status = s, details = d\<rparr>"

definition any_fail :: "test_result list \<Rightarrow> bool" where
  "any_fail test_results = list_ex (\<lambda>r. status r = ''FAIL'') test_results"

definition test_page_accessibility :: "string \<Rightarrow> string \<Rightarrow> bool io" where
  "test_page_accessibility page_name page_url =
     bind_io (http_get page_url) (\<lambda>r.
     case r of
       RequestException e \<Rightarrow>
         bind_io (save_test_results page_name ''accessibility'' [result ''network'' ''FAIL'' e]) (\<lambda>_.
         bind_io (update_error_count ''critical'') (\<lambda>_.
         return_io False))
     | Response resp \<Rightarrow>
         bind_io (if status_code resp = 200
                  then return_io [result ''http_status'' ''PASS'' (str_int (status_code resp))]
                  else bind_io (update_error_count ''high'') (\<lambda>_.
                       return_io [result ''http_status'' ''FAIL'' (str_int (status_code resp))]))
           (\<lambda>test_results.
         let response_time_ms = elapsed_ms resp in
         bind_io (if response_time_ms < 3000
                  then return_io (test_results @
                         [result ''response_time'' ''PASS'' (str_int response_time_ms @ ''ms'')])
                  else if response_time_ms < 5000
                  then bind_io (update_error_count ''medium'') (\<lambda>_.
                       return_io (test_results @
                         [result ''response_time'' ''WARN'' (str_int response_time_ms @ ''ms'')]))
                  else bind_io (update_error_count ''high'') (\<lambda>_.
                       return_io (test_results @
                         [result ''response_time'' ''FAIL'' (str_int response_time_ms @ ''ms'')])))
           (\<lambda>test_results.
         let content_length = int (length (content resp)) in
         bind_io (if content_length > 1000
                  then return_io (test_results @
                         [result ''content_length'' ''PASS'' (str_int content_length @ ''bytes'')])
                  else bind_io (update_error_count ''low'') (\<lambda>_.
                       return_io (test_results @
                         [result ''content_length'' ''WARN'' (str_int content_length @ ''bytes'')])))
           (\<lambda>test_results.
         bind_io (save_test_results page_name ''accessibility'' test_results) (\<lambda>_.
         return_io (\<not> any_fail test_results))))))"

definition nav_tests :: "(string \<times> string) list" where
  "nav_tests = [(''nav'', ''navigation element''), (''menu'', ''menu element''),
                (''sidebar'', ''sidebar element''), (''header'', ''header element''),
                (''dashboard'', ''dashboard link''), (''products'', ''products link'')]"

text \<open>The loop over \<^verbatim>\<open>nav_tests\<close>, with its two accumulators.\<close>

fun nav_loop :: "string \<Rightarrow> (string \<times> string) list \<Rightarrow> test_result list \<Rightarrow> int
                 \<Rightarrow> test_result list \<times> int" where
  "nav_loop page_content [] test_results nav_pass_count = (test_results, nav_pass_count)"
| "nav_loop page_content ((search_term, description) # rest) test_results nav_pass_count =
     (if contains search_term page_content
      then nav_loop page_content rest
             (test_results @ [result (''nav_'' @ search_term) ''PASS'' ''found''])
             (nav_pass_count + 1)
      else nav_loop page_content rest
             (test_results @ [result (''nav_'' @ search_term) ''WARN'' ''missing''])
             nav_pass_count)"

definition test_page_navigation :: "string \<Rightarrow> string \<Rightarrow> bool io" where
  "test_page_navigation page_name page_url =
     bind_io (http_get page_url) (\<lambda>r.
     case r of
       RequestException e \<Rightarrow>
         bind_io (save_test_results page_name ''navigation'' [result ''network'' ''FAIL'' e]) (\<lambda>_.
         bind_io (update_error_count ''high'') (\<lambda>_.
         return_io False))
     | Response resp \<Rightarrow>
         let page_content = lower (text_body resp);
             (test_results, nav_pass_count) = nav_loop page_content nav_tests [] 0
         in
         bind_io (if nav_pass_count \<ge> 4
                  then return_io (test_results @
                         [result ''navigation_overall'' ''PASS'' (str_int nav_pass_count @ ''/6'')])
                  else if nav_pass_count \<ge> 2
                  then bind_io (update_error_count ''medium'') (\<lambda>_.
                       return_io (test_results @
                         [result ''navigation_overall'' ''WARN'' (str_int nav_pass_count @ ''/6'')]))
                  else bind_io (update_error_count ''high'') (\<lambda>_.
                       return_io (test_results @
                         [result ''navigation_overall'' ''FAIL'' (str_int nav_pass_count @ ''/6'')])))
           (\<lambda>test_results.
         bind_io (save_test_results page_name ''navigation'' test_results) (\<lambda>_.
         return_io (nav_pass_count \<ge> 2))))"

definition any_term_in :: "string list \<Rightarrow> string \<Rightarrow> bool" where
  "any_term_in terms page_content = list_ex (\<lambda>term. contains term page_content) terms"

text \<open>
  \<^verbatim>\<open>test_page_specific_functionality\<close> appends to the caller's list; the model returns
  the extended list.
\<close>

definition test_page_specific_functionality ::
    "string \<Rightarrow> string \<Rightarrow> test_result list \<Rightarrow> test_result list io" where
  "test_page_specific_functionality page_name page_content test_results =
     (if page_name = ''dashboard'' then
        bind_io (if any_term_in [''card'', ''widget'', ''dashboard''] page_content
                 then return_io (test_results @ [result ''dashboard_cards'' ''PASS'' ''found''])
                 else bind_io (update_error_count ''medium'') (\<lambda>_.
                      return_io (test_results @ [result ''dashboard_cards'' ''WARN'' ''missing''])))
          (\<lambda>test_results.
        if any_term_in [''total'', ''count'', ''metric'', ''statistic''] page_content
        then return_io (test_results @ [result ''dashboard_metrics'' ''PASS'' ''found''])
        else bind_io (update_error_count ''medium'') (\<lambda>_.
             return_io (test_results @ [result ''dashboard_metrics'' ''WARN'' ''missing''])))
      else if page_name = ''products'' then
        (if any_term_in [''product'', ''item'', ''inventory''] page_content
         then return_io (test_results @ [result ''products_content'' ''PASS'' ''found''])
         else bind_io (update_error_count ''medium'') (\<lambda>_.
              return_io (test_results @ [result ''products_content'' ''WARN'' ''missing''])))
      else if page_name = ''scan'' then
        (if any_term_in [''barcode'', ''camera'', ''scan''] page_content
         then return_io (test_results @ [result ''scan_barcode'' ''PASS'' ''found''])
         else bind_io (update_error_count ''high'') (\<lambda>_.
              return_io (test_results @ [result ''scan_barcode'' ''FAIL'' ''missing''])))
      else if contains ''ai-assistant'' page_name then
        (if any_term_in [''ai'', ''assistant'', ''agent'', ''artificial''] page_content
         then return_io (test_results @ [result ''ai_content'' ''PASS'' ''found''])
         else bind_io (update_error_count ''high'') (\<lambda>_.
              return_io (test_results @ [result ''ai_content'' ''FAIL'' ''missing''])))
      else return_io test_results)"

text \<open>The needles \<^verbatim>\<open>type="button"\<close> and \<^verbatim>\<open>type="submit"\<close>; \<open>CHR 0x22\<close> is the double quote.\<close>

definition type_button :: string where
  "type_button = ''type='' @ [CHR 0x22] @ ''button'' @ [CHR 0x22]"

definition type_submit :: string where
  "type_submit = ''type='' @ [CHR 0x22] @ ''submit'' @ [CHR 0x22]"

definition test_page_functionality :: "string \<Rightarrow> string \<Rightarrow> bool io" where
  "test_page_functionality page_name page_url =
     bind_io (http_get page_url) (\<lambda>r.
     case r of
       RequestException e \<Rightarrow>
         bind_io (save_test_results page_name ''functionality'' [result ''network'' ''FAIL'' e]) (\<lambda>_.
         bind_io (update_error_count ''high'') (\<lambda>_.
         return_io False))
     | Response resp \<Rightarrow>
         let page_content = lower (text_body resp) in
         bind_io (if contains ''<script'' page_content
                  then return_io [result ''javascript'' ''PASS'' ''scripts_found'']
                  else bind_io (update_error_count ''low'') (\<lambda>_.
                       return_io [result ''javascript'' ''WARN'' ''no_scripts'']))
           (\<lambda>test_results.
         bind_io (if contains ''stylesheet'' page_content \<or> contains ''<style'' page_content
                  then return_io (test_results @ [result ''css'' ''PASS'' ''stylesheets_found''])
                  else bind_io (update_error_count ''medium'') (\<lambda>_.
                       return_io (test_results @ [result ''css'' ''FAIL'' ''no_stylesheets''])))
           (\<lambda>test_results.
         let form_count = int (count_str page_content ''<form'');
             test_results =
               (if form_count > 0
                then test_results @ [result ''forms'' ''PASS'' (str_int form_count @ ''_forms'')]
                else test_results @ [result ''forms'' ''INFO'' ''no_forms'']);
             button_count = int (count_str page_content ''<button'')
                          + int (count_str page_content type_button)
                          + int (count_str page_content type_submit)
         in
         bind_io (if button_count > 0
                  then return_io (test_results @
                         [result ''buttons'' ''PASS'' (str_int button_count @ ''_buttons'')])
                  else bind_io (update_error_count ''low'') (\<lambda>_.
                       return_io (test_results @ [result ''buttons'' ''WARN'' ''no_buttons''])))
           (\<lambda>test_results.
         bind_io (test_page_specific_functionality page_name page_content test_results)
           (\<lambda>test_results.
         bind_io (save_test_results page_name ''functionality'' test_results) (\<lambda>_.
         return_io (\<not> any_fail test_results)))))))"

definition time_now :: "int io" where
  "time_now w = (Inr (time_time w (ticks w)), w\<lparr>ticks := ticks w + 1\<rparr>)"

definition test_error_handling :: "string \<Rightarrow> string \<Rightarrow> bool io" where
  "test_error_handling page_name page_url =
     bind_io time_now (\<lambda>t.
     let invalid_url = page_url @ ''/invalid-route-test-'' @ str_int t in
     bind_io (http_get invalid_url) (\<lambda>r.
     bind_io (case r of
                Response resp \<Rightarrow>
                  if status_code resp = 404
                  then return_io [result ''404_handling'' ''PASS'' ''proper_404'']
                  else bind_io (update_error_count ''low'') (\<lambda>_.
                       return_io [result ''404_handling'' ''WARN''
                                    (''status_'' @ str_int (status_code resp))])
              | RequestException e \<Rightarrow>
                  return_io [result ''404_handling'' ''INFO'' ''connection_error''])
       (\<lambda>test_results.
     bind_io (http_get page_url) (\<lambda>r.
     let test_results =
           (case r of
              Response resp \<Rightarrow>
                let page_content = lower (text_body resp) in
                if any_term_in [''error'', ''exception'', ''boundary''] page_content
                then test_results @ [result ''error_boundaries'' ''INFO'' ''content_found'']
                else test_results @ [result ''error_boundaries'' ''PASS'' ''no_errors'']
            | RequestException e \<Rightarrow>
                test_results @ [result ''error_boundaries'' ''WARN'' e])
     in
     bind_io (save_test_results page_name ''error_handling'' test_results) (\<lambda>_.
     return_io True)))))"

section \<open>InventoryAuditSystem\<close>

record page_info =
  url :: string
  name :: string
  category :: string
  risk_level :: string

text \<open>
  The page table \<^verbatim>\<open>self.pages\<close>, a dictionary literal, in its insertion order: the order
  \<^verbatim>\<open>list(self.pages.keys())\<close> returns.
\<close>

definition pages :: "(string \<times> page_info) list" where
  "pages =
     [(''home'', \<lparr>url = ''http://localhost:3000/'', name = ''Home'',
                  category = ''core'', risk_level = ''low''\<rparr>),
      (''dashboard'', \<lparr>url = ''http://localhost:3000/dashboard'', name = ''Dashboard'',
                  category = ''core'', risk_level = ''medium''\<rparr>),
      (''products'', \<lparr>url = ''http://localhost:3000/products'', name = ''Products'',
                  category = ''core'', risk_level = ''high''\<rparr>),
      (''image-cataloging'', \<lparr>url = ''http://localhost:3000/image-cataloging'',
                  name = ''AI Image Cataloging'', category = ''core'', risk_level = ''high''\<rparr>),
      (''scan'', \<lparr>url = ''http://localhost:3000/scan'', name = ''Scan Barcode'',
                  category = ''core'', risk_level = ''high''\<rparr>),
      (''orders'', \<lparr>url = ''http://localhost:3000/orders'', name = ''Orders'',
                  category = ''core'', risk_level = ''medium''\<rparr>),
      (''customers'', \<lparr>url = ''http://localhost:3000/customers'', name = ''Customers'',
                  category = ''core'', risk_level = ''medium''\<rparr>),
      (''reports'', \<lparr>url = ''http://localhost:3000/reports'', name = ''Reports'',
                  category = ''core'', risk_level = ''medium''\<rparr>),
      (''inventory-alerts'', \<lparr>url = ''http://localhost:3000/inventory/alerts'',
                  name = ''Inventory Alerts'', category = ''core'', risk_level = ''medium''\<rparr>),
      (''ai-assistant'', \<lparr>url = ''http://localhost:3000/ai-assistant'', name = ''AI Assistant'',
                  category = ''ai'', risk_level = ''high''\<rparr>),
      (''ai-assistant-custom-agents'', \<lparr>url = ''http://localhost:3000/ai-assistant/custom-agents'',
                  name = ''Custom AI Agents'', category = ''ai'', risk_level = ''high''\<rparr>),
      (''ai-assistant-settings'', \<lparr>url = ''http://localhost:3000/ai-assistant/settings'',
                  name = ''AI Settings'', category = ''ai'', risk_level = ''high''\<rparr>),
      (''settings'', \<lparr>url = ''http://localhost:3000/settings'', name = ''Settings'',
                  category = ''system'', risk_level = ''medium''\<rparr>)]"

definition page_keys :: "string list" where
  "page_keys = map fst pages"

definition uuid_now :: "string io" where
  "uuid_now w = (Inr (uuid4 w (ticks w)), w\<lparr>ticks := ticks w + 1\<rparr>)"

definition write_counter_file :: "int \<Rightarrow> unit io" where
  "write_counter_file c w = (Inr (), w\<lparr>counter_file := Some c\<rparr>)"

text \<open>
  \<^verbatim>\<open>initialize_session\<close> overwrites the session document and resets the counter file
  to 1. The four \<^verbatim>\<open>mkdir(exist_ok=True)\<close> calls change no file.
\<close>

definition initialize_session :: "string io" where
  "initialize_session =
     bind_io uuid_now (\<lambda>sid.
     bind_io datetime_now (\<lambda>start_time.
     let session_data =
           \<lparr>session_id = sid,
            audit_start_time = start_time,
            last_checkpoint = None,
            current_operation = \<lparr>op_page = None, op_phase = ''initialization'',
                                  op_step = ''setup'', op_started_at = start_time\<rparr>,
            progress = \<lparr>pages_completed = [], pages_in_progress = [],
                         pages_remaining = page_keys, total_pages = int (length pages),
                         completion_percentage = 0\<rparr>,
            checkpoint_history = [\<lparr>cp_id = ''CP_000_INIT'', cp_timestamp = start_time,
                                    cp_type = ''INITIALIZATION'', cp_page = None,
                                    cp_phase = None, cp_status = ''SUCCESS''\<rparr>],
            error_summary = \<lparr>critical = 0, high = 0, medium = 0, low = 0, total = 0\<rparr>,
            recovery_metadata = \<lparr>browser_state = ''initialized'', session_storage = ''clean'',
                                  network_state = ''unknown'',
                                  last_successful_action = ''session_initialization''\<rparr>\<rparr>
     in
     bind_io (save_session session_data) (\<lambda>_.
     bind_io (write_counter_file 1) (\<lambda>_.
     return_io sid))))"

definition summary_file_name :: "string \<Rightarrow> string" where
  "summary_file_name page_name = page_name @ ''_summary.md''"

definition create_page_summary :: "string \<Rightarrow> string \<Rightarrow> string \<Rightarrow> string list \<Rightarrow> unit io" where
  "create_page_summary page_name page_url overall_status phase_results =
     bind_io datetime_now (\<lambda>timestamp w.
     (Inr (), w\<lparr>summary_files := (summary_files w)(summary_file_name page_name \<mapsto>
        \<lparr>ps_page = page_name, ps_url = page_url, ps_timestamp = timestamp,
         ps_overall_status = overall_status, ps_phase_results = phase_results\<rparr>)\<rparr>))"

text \<open>
  \<^verbatim>\<open>audit_page\<close>. The two local variables \<^verbatim>\<open>overall_status\<close> and \<^verbatim>\<open>phase_results\<close>
  are passed from phase to phase as a pair.
\<close>

definition audit_page :: "string \<Rightarrow> bool io" where
  "audit_page page_name =
     (case map_of pages page_name of
        None \<Rightarrow> return_io False
      | Some info \<Rightarrow>
     let page_url = url info in
     bind_io load_session (\<lambda>s.
     bind_io datetime_now (\<lambda>started.
     bind_io (save_session (s\<lparr>current_operation :=
                \<lparr>op_page = Some page_name, op_phase = ''starting'',
                 op_step = ''initialization'', op_started_at = started\<rparr>\<rparr>)) (\<lambda>_.
     let overall_status = ''SUCCESS''; phase_results = [] in
     bind_io (create_micro_checkpoint page_name ''accessibility_start'' ''IN_PROGRESS'') (\<lambda>_.
     bind_io (test_page_accessibility page_name page_url) (\<lambda>passed.
     bind_io (if passed
              then bind_io (create_micro_checkpoint page_name ''accessibility_complete'' ''SUCCESS'') (\<lambda>_.
                   return_io (overall_status, phase_results @ [''accessibility:PASS'']))
              else bind_io (create_micro_checkpoint page_name ''accessibility_complete'' ''FAILED'') (\<lambda>_.
                   return_io (''FAILED'', phase_results @ [''accessibility:FAIL''])))
       (\<lambda>(overall_status, phase_results).
     bind_io (create_micro_checkpoint page_name ''navigation_start'' ''IN_PROGRESS'') (\<lambda>_.
     bind_io (test_page_navigation page_name page_url) (\<lambda>passed.
     bind_io (if passed
              then bind_io (create_micro_checkpoint page_name ''navigation_complete'' ''SUCCESS'') (\<lambda>_.
                   return_io (phase_results @ [''navigation:PASS'']))
              else bind_io (create_micro_checkpoint page_name ''navigation_complete'' ''FAILED'') (\<lambda>_.
                   return_io (phase_results @ [''navigation:FAIL''])))
       (\<lambda>phase_results.
     bind_io (create_micro_checkpoint page_name ''functionality_start'' ''IN_PROGRESS'') (\<lambda>_.
     bind_io (test_page_functionality page_name page_url) (\<lambda>passed.
     bind_io (if passed
              then bind_io (create_micro_checkpoint page_name ''functionality_complete'' ''SUCCESS'') (\<lambda>_.
                   return_io (overall_status, phase_results @ [''functionality:PASS'']))
              else bind_io (create_micro_checkpoint page_name ''functionality_complete'' ''FAILED'') (\<lambda>_.
                   return_io (''FAILED'', phase_results @ [''functionality:FAIL''])))
       (\<lambda>(overall_status, phase_results).
     bind_io (create_micro_checkpoint page_name ''error_handling_start'' ''IN_PROGRESS'') (\<lambda>_.
     bind_io (test_error_handling page_name page_url) (\<lambda>passed.
     bind_io (if passed
              then bind_io (create_micro_checkpoint page_name ''error_handling_complete'' ''SUCCESS'') (\<lambda>_.
                   return_io (phase_results @ [''error_handling:PASS'']))
              else bind_io (create_micro_checkpoint page_name ''error_handling_complete'' ''WARNING'') (\<lambda>_.
                   return_io (phase_results @ [''error_handling:WARN''])))
       (\<lambda>phase_results.
     bind_io (create_page_summary page_name page_url overall_status phase_results) (\<lambda>_.
     bind_io (create_checkpoint page_name overall_status) (\<lambda>_.
     return_io (overall_status = ''SUCCESS'')))))))))))))))))))"

text \<open>
  \<^verbatim>\<open>generate_final_report\<close>: the health score and the machine-readable summary. The
  Markdown report is presentation and is not modelled; its file name is kept because the
  summary records it. \<^verbatim>\<open>strftime("%Y%m%d_%H%M%S")\<close> yields no dot, so
  \<^verbatim>\<open>with_suffix(".json")\<close> replaces exactly the \<^verbatim>\<open>.md\<close>.
\<close>

definition compute_health_score :: "error_summary \<Rightarrow> int" where
  "compute_health_score e =
     (let health_score = 100;
          health_score = health_score - critical e * 25;
          health_score = health_score - high e * 10;
          health_score = health_score - medium e * 5;
          health_score = health_score - low e * 1
      in max 0 health_score)"

definition generate_final_report :: "unit io" where
  "generate_final_report =
     bind_io datetime_now (\<lambda>timestamp.
     let report_name = ''final_audit_report_'' @ timestamp @ ''.md'' in
     bind_io load_session (\<lambda>s.
     let score = compute_health_score (error_summary s);
         json_name = ''final_audit_report_'' @ timestamp @ ''.json''
     in
     bind_io datetime_now (\<lambda>now w.
     (Inr (), w\<lparr>report_files := (report_files w)(json_name \<mapsto>
        \<lparr>as_timestamp = now,
         as_session_id = session_id s,
         health_score = score,
         as_total_pages = total_pages (progress s),
         completed_pages = int (length (pages_completed (progress s))),
         as_completion_percentage = completion_percentage (progress s),
         errors = error_summary s,
         as_status = (if score \<ge> 75 then ''GOOD'' else ''NEEDS_ATTENTION''),
         report_markdown = report_name,
         report_json = json_name\<rparr>)\<rparr>))))"

section \<open>Sequences of operations\<close>

text \<open>
  The operations that change the session and the counter after initialisation. A process
  holds no state of its own, so ending it and starting another (\<open>Restart\<close>) leaves the
  world as it is. An exception ends the operation that raised it and nothing more:
  \<^verbatim>\<open>full_audit\<close> catches it and goes on, and after a process dies of it the next one
  finds the files as they were left. \<open>run\<close> returns what each checkpoint creation
  returned or raised, in order, and the final world.
\<close>

datatype operation =
    Create_checkpoint string string
  | Create_micro_checkpoint string string string
  | Update_error_count string
  | Restart

fun run :: "operation list \<Rightarrow> world \<Rightarrow> (error + string) list \<times> world" where
  "run [] w = ([], w)"
| "run (Create_checkpoint page_name st # ops) w =
     (let (r, w1) = create_checkpoint page_name st w; (rs, w2) = run ops w1 in (r # rs, w2))"
| "run (Create_micro_checkpoint page_name phase st # ops) w =
     (let (r, w1) = create_micro_checkpoint page_name phase st w; (rs, w2) = run ops w1
      in (r # rs, w2))"
| "run (Update_error_count error_level # ops) w = run ops (snd (update_error_count error_level w))"
| "run (Restart # ops) w = run ops w"

section \<open>Notions used in the statements\<close>

text \<open>
  The value the next call of \<^verbatim>\<open>get_next_checkpoint_counter\<close> returns, the identifier of
  a macro checkpoint, and the session document a macro checkpoint builds before it looks
  at the status.
\<close>

definition next_counter :: "world \<Rightarrow> int" where
  "next_counter w = (case counter_file w of Some c \<Rightarrow> c | None \<Rightarrow> 1)"

definition macro_id :: "int \<Rightarrow> string \<Rightarrow> string" where
  "macro_id c p = ''CP_'' @ format_03d c @ ''_'' @ upper p @ ''_COMPLETE''"

definition macro_session :: "world \<Rightarrow> string \<Rightarrow> string \<Rightarrow> session \<Rightarrow> session" where
  "macro_session w p st s =
     (let info = \<lparr>cp_id = macro_id (next_counter w) p, cp_timestamp = utc_now w (ticks w),
                   cp_type = ''MACRO'', cp_page = Some p, cp_phase = Some ''complete'',
                   cp_status = st\<rparr>
      in s\<lparr>last_checkpoint := Some info, checkpoint_history := checkpoint_history s @ [info]\<rparr>)"

text \<open>
  The restrictions the claims put on the operations of a sequence: macro checkpoints for
  pages of the page table, and error levels among the four severities.
\<close>

fun from_registry :: "operation \<Rightarrow> bool" where
  "from_registry (Create_checkpoint page_name st) = (page_name \<in> set page_keys)"
| "from_registry _ = True"

fun known_severity :: "operation \<Rightarrow> bool" where
  "known_severity (Update_error_count error_level) =
     (error_level \<in> {''critical'', ''high'', ''medium'', ''low''})"
| "known_severity _ = True"

text \<open>
  What holds of the progress record and of the error tally in every session the
  operations reach; \<open>after\<close> is the world one operation leaves.
\<close>

definition disjoint_progress :: "progress \<Rightarrow> bool" where
  "disjoint_progress p = (distinct (pages_completed p) \<and> distinct (pages_remaining p)
     \<and> set (pages_completed p) \<inter> set (pages_remaining p) = {} \<and> total_pages p \<noteq> 0)"

definition covers_registry :: "progress \<Rightarrow> bool" where
  "covers_registry p = (set (pages_completed p) \<union> set (pages_remaining p) = set page_keys)"

definition tally_consistent :: "error_summary \<Rightarrow> bool" where
  "tally_consistent e = (total e = critical e + high e + medium e + low e)"

definition after :: "operation \<Rightarrow> world \<Rightarrow> world" where
  "after a w = snd (run [a] w)"


text \<open>
  \<open>embeds c r\<close>: if the creation returned an identifier, the identifier begins with
  \<^verbatim>\<open>CP_\<close>, the counter value \<open>c\<close> in the format \<^verbatim>\<open>03d\<close>, and an underscore.
  \<open>returned_ids\<close> keeps the identifiers of the creations that returned.
\<close>

definition embeds :: "int \<Rightarrow> error + string \<Rightarrow> bool" where
  "embeds c r = (case r of Inl e \<Rightarrow> True
                 | Inr cid \<Rightarrow> starts_with (''CP_'' @ format_03d c @ ''_'') cid)"

text \<open>Reading a decimal numeral back, for the proof that the format is injective.\<close>

definition digit_of :: "char \<Rightarrow> nat" where
  "digit_of c = length (takeWhile (\<lambda>x. x \<noteq> c) ''0123456789'')"

definition digits_val :: "string \<Rightarrow> nat" where
  "digits_val s = foldl (\<lambda>a c. 10 * a + digit_of c) 0 s"

fun returned_ids :: "(error + string) list \<Rightarrow> string list" where
  "returned_ids [] = []"
| "returned_ids (Inl e # rs) = returned_ids rs"
| "returned_ids (Inr cid # rs) = cid # returned_ids rs"


text \<open>
  For the phases of a page audit. \<open>frame k w w'\<close>: from \<open>w\<close> to \<open>w'\<close>, \<open>k\<close> requests
  were made, the server is the same, and the session document kept its history, its
  progress and its last checkpoint. \<open>post k m Q\<close>: with a session document on disk, \<open>m\<close>
  returns a value satisfying \<open>Q\<close> within such a frame; \<open>det m\<close>: it returns the same
  value in every such world, making no request.
\<close>

definition frame :: "nat \<Rightarrow> world \<Rightarrow> world \<Rightarrow> bool" where
  "frame k w w' = (requests_made w' = requests_made w + k \<and> requests_get w' = requests_get w
     \<and> (\<exists>s s'. session_file w = Some s \<and> session_file w' = Some s'
           \<and> checkpoint_history s' = checkpoint_history s \<and> progress s' = progress s
           \<and> last_checkpoint s' = last_checkpoint s))"

definition post :: "nat \<Rightarrow> 'a io \<Rightarrow> ('a \<Rightarrow> bool) \<Rightarrow> bool" where
  "post k m Q = (\<forall>w s. session_file w = Some s \<longrightarrow>
     (\<exists>x. fst (m w) = Inr x \<and> Q x) \<and> frame k w (snd (m w)))"

definition det :: "'a io \<Rightarrow> bool" where
  "det m = (\<exists>v. post 0 m (\<lambda>x. x = v))"

text \<open>
  For \<^verbatim>\<open>audit_page\<close>. \<open>stage w0 k h w\<close>: \<open>w\<close> is \<open>k\<close> requests after \<open>w0\<close> and its
  checkpoint history is that of \<open>w0\<close> followed by records with the types, phases and
  statuses \<open>h\<close>. \<open>triple P m Q\<close>: from a world in \<open>P\<close>, \<open>m\<close> returns a value and a world
  in \<open>Q\<close>. \<open>probe w0 k\<close>: \<open>w0\<close> at its \<open>k\<close>-th request from now. \<open>audit_trace a n f\<close>:
  the records of one page audit whose accessibility, navigation and functionality phases
  returned \<open>a\<close>, \<open>n\<close> and \<open>f\<close>.
\<close>

definition stage :: "world \<Rightarrow> nat \<Rightarrow> (string \<times> string option \<times> string) list \<Rightarrow> world \<Rightarrow> bool" where
  "stage w0 k h w = (requests_get w = requests_get w0 \<and> requests_made w = requests_made w0 + k
     \<and> (\<exists>s0 s new. session_file w0 = Some s0 \<and> session_file w = Some s
           \<and> total_pages (progress s) = total_pages (progress s0)
           \<and> checkpoint_history s = checkpoint_history s0 @ new
           \<and> map (\<lambda>c. (cp_type c, cp_phase c, cp_status c)) new = h))"

definition triple :: "(world \<Rightarrow> bool) \<Rightarrow> 'a io \<Rightarrow> ('a \<Rightarrow> world \<Rightarrow> bool) \<Rightarrow> bool" where
  "triple P m Q = (\<forall>w. P w \<longrightarrow> (\<exists>x. fst (m w) = Inr x \<and> Q x (snd (m w))))"

definition probe :: "world \<Rightarrow> nat \<Rightarrow> world" where
  "probe w0 k = w0\<lparr>requests_made := requests_made w0 + k\<rparr>"

definition audit_trace :: "bool \<Rightarrow> bool \<Rightarrow> bool \<Rightarrow> (string \<times> string option \<times> string) list" where
  "audit_trace a n f =
     [(''MICRO'', Some ''accessibility_start'', ''IN_PROGRESS''),
      (''MICRO'', Some ''accessibility_complete'', if a then ''SUCCESS'' else ''FAILED''),
      (''MICRO'', Some ''navigation_start'', ''IN_PROGRESS''),
      (''MICRO'', Some ''navigation_complete'', if n then ''SUCCESS'' else ''FAILED''),
      (''MICRO'', Some ''functionality_start'', ''IN_PROGRESS''),
      (''MICRO'', Some ''functionality_complete'', if f then ''SUCCESS'' else ''FAILED''),
      (''MICRO'', Some ''error_handling_start'', ''IN_PROGRESS''),
      (''MICRO'', Some ''error_handling_complete'', ''SUCCESS''),
      (''MACRO'', Some ''complete'', if a \<and> f then ''SUCCESS'' else ''FAILED'')]"

section \<open>A concrete world\<close>

text \<open>
  An empty audit directory, a clock that always shows the same instant, and a server that
  refuses every connection. The concrete instances of the theorems below start from it.
\<close>

definition fresh_world :: world where
  "fresh_world =
     \<lparr>counter_file = None, session_file = None, checkpoint_files = Map.empty,
      results_files = Map.empty, summary_files = Map.empty, report_files = Map.empty,
      ticks = 0, requests_made = 0,
      utc_now = (\<lambda>_. ''2025-01-01T00:00:00+00:00''),
      uuid4 = (\<lambda>_. ''00000000-0000-4000-8000-000000000000''),
      time_time = (\<lambda>_. 1735689600),
      requests_get = (\<lambda>_ _. RequestException ''connection refused''),
      issued = []\<rparr>"

definition initialized_world :: world where
  "initialized_world = snd (initialize_session fresh_world)"

text \<open>
  A server that answers every request with status 200 after 500 ms and a page of 5000
  bytes, and the initialised world in front of it.
\<close>

definition healthy_page :: string where
  "healthy_page = ''<html><head><link rel=stylesheet href=app.css><script src=app.js></script></head><body><header><nav>menu dashboard products</nav></header><button>ok</button></body></html>''"

definition healthy_response :: response where
  "healthy_response =
     \<lparr>status_code = 200, elapsed_ms = 500,
      content = healthy_page @ replicate (5000 - length healthy_page) (CHR '' ''),
      text_body = healthy_page @ replicate (5000 - length healthy_page) (CHR '' '')\<rparr>"

definition healthy_world :: world where
  "healthy_world = initialized_world\<lparr>requests_get := (\<lambda>_ _. Response healthy_response)\<rparr>"


text \<open>
  A server whose pages are one stylesheet link and one script, 38 bytes, answered with
  status 200 after 500 ms.
\<close>

definition plain_response :: response where
  "plain_response =
     \<lparr>status_code = 200, elapsed_ms = 500,
      content = ''<link rel=stylesheet><script></script>'',
      text_body = ''<link rel=stylesheet><script></script>''\<rparr>"

definition plain_world :: world where
  "plain_world = initialized_world\<lparr>requests_get := (\<lambda>_ _. Response plain_response)\<rparr>"

text \<open>A sequence with every kind of operation in it, a repeated page and a failed page.\<close>

definition example_operations :: "operation list" where
  "example_operations =
     [Create_micro_checkpoint ''home'' ''accessibility_start'' ''IN_PROGRESS'',
      Update_error_count ''high'',
      Create_checkpoint ''home'' ''SUCCESS'',
      Restart,
      Update_error_count ''low'',
      Create_checkpoint ''scan'' ''FAILED'',
      Create_checkpoint ''home'' ''SUCCESS'']"


text \<open>The initialised world after one critical, two high and three low findings.\<close>

definition tallied_world :: world where
  "tallied_world = snd (run [Update_error_count ''critical'', Update_error_count ''high'',
      Update_error_count ''high'', Update_error_count ''low'', Update_error_count ''low'',
      Update_error_count ''low''] initialized_world)"

section \<open>How the operations run\<close>

lemmas io_defs = bind_io_def return_io_def raise_io_def datetime_now_def http_get_def
  load_session_def save_session_def uuid_now_def write_counter_file_def time_now_def

text \<open>A micro checkpoint, with and without a session document on disk.\<close>

lemma create_micro_checkpoint_run:
  "session_file w = Some s \<Longrightarrow>
   create_micro_checkpoint p ph st w =
     (let c = (case counter_file w of Some c \<Rightarrow> c | None \<Rightarrow> 1);
          cid = ''CP_'' @ format_03d c @ ''_'' @ upper p @ ''_'' @ upper ph
      in (Inr cid,
          w\<lparr>counter_file := Some (c + 1), issued := issued w @ [c], ticks := ticks w + 1,
            session_file := Some (s\<lparr>checkpoint_history := checkpoint_history s @
              [\<lparr>cp_id = cid, cp_timestamp = utc_now w (ticks w), cp_type = ''MICRO'',
                cp_page = Some p, cp_phase = Some ph, cp_status = st\<rparr>]\<rparr>)\<rparr>))"
  by (simp add: create_micro_checkpoint_def get_next_checkpoint_counter_def io_defs Let_def)

lemma create_micro_checkpoint_none:
  "session_file w = None \<Longrightarrow>
   create_micro_checkpoint p ph st w =
     (let c = (case counter_file w of Some c \<Rightarrow> c | None \<Rightarrow> 1)
      in (Inl FileNotFoundError,
          w\<lparr>counter_file := Some (c + 1), issued := issued w @ [c], ticks := ticks w + 1\<rparr>))"
  by (simp add: create_micro_checkpoint_def get_next_checkpoint_counter_def io_defs Let_def)

text \<open>The page table's keys, and what \<^verbatim>\<open>initialize_session\<close> writes.\<close>

lemma page_keys_eq:
  "page_keys = [''home'', ''dashboard'', ''products'', ''image-cataloging'', ''scan'', ''orders'',
      ''customers'', ''reports'', ''inventory-alerts'', ''ai-assistant'',
      ''ai-assistant-custom-agents'', ''ai-assistant-settings'', ''settings'']"
  by (simp add: page_keys_def pages_def)

lemma distinct_page_keys: "distinct page_keys"
  by (simp add: page_keys_eq)

lemma length_pages: "length pages = 13"
  by (simp add: pages_def)

lemma initialize_session_run:
  "initialize_session w =
     (Inr (uuid4 w (ticks w)),
      w\<lparr>ticks := ticks w + 2, counter_file := Some 1,
        session_file := Some
          \<lparr>session_id = uuid4 w (ticks w),
            audit_start_time = utc_now w (ticks w + 1),
            last_checkpoint = None,
            current_operation = \<lparr>op_page = None, op_phase = ''initialization'',
                                  op_step = ''setup'', op_started_at = utc_now w (ticks w + 1)\<rparr>,
            progress = \<lparr>pages_completed = [], pages_in_progress = [],
                         pages_remaining = page_keys, total_pages = 13,
                         completion_percentage = 0\<rparr>,
            checkpoint_history = [\<lparr>cp_id = ''CP_000_INIT'', cp_timestamp = utc_now w (ticks w + 1),
                                    cp_type = ''INITIALIZATION'', cp_page = None,
                                    cp_phase = None, cp_status = ''SUCCESS''\<rparr>],
            error_summary = \<lparr>critical = 0, high = 0, medium = 0, low = 0, total = 0\<rparr>,
            recovery_metadata = \<lparr>browser_state = ''initialized'', session_storage = ''clean'',
                                  network_state = ''unknown'',
                                  last_successful_action = ''session_initialization''\<rparr>\<rparr>\<rparr>)"
  by (simp add: initialize_session_def io_defs Let_def length_pages)

text \<open>\<^verbatim>\<open>update_error_count\<close>: a known level, an unknown level, no session document.\<close>

lemma update_error_count_run:
  "session_file w = Some s \<Longrightarrow> increment_level l (error_summary s) = Inr es \<Longrightarrow>
   update_error_count l w =
     (Inr (), w\<lparr>session_file := Some (s\<lparr>error_summary := es\<lparr>total := total es + 1\<rparr>\<rparr>)\<rparr>)"
  by (simp add: update_error_count_def io_defs)

lemma update_error_count_key_error:
  "session_file w = Some s \<Longrightarrow> increment_level l (error_summary s) = Inl e \<Longrightarrow>
   update_error_count l w = (Inl e, w)"
  by (simp add: update_error_count_def io_defs)

lemma update_error_count_none:
  "session_file w = None \<Longrightarrow> update_error_count l w = (Inl FileNotFoundError, w)"
  by (simp add: update_error_count_def io_defs)

lemma generate_final_report_run:
  "session_file w = Some s \<Longrightarrow>
   generate_final_report w =
     (Inr (), w\<lparr>ticks := ticks w + 2,
        report_files := (report_files w)(''final_audit_report_'' @ utc_now w (ticks w) @ ''.json'' \<mapsto>
        \<lparr>as_timestamp = utc_now w (ticks w + 1),
         as_session_id = session_id s,
         health_score = compute_health_score (error_summary s),
         as_total_pages = total_pages (progress s),
         completed_pages = int (length (pages_completed (progress s))),
         as_completion_percentage = completion_percentage (progress s),
         errors = error_summary s,
         as_status = (if compute_health_score (error_summary s) \<ge> 75
                      then ''GOOD'' else ''NEEDS_ATTENTION''),
         report_markdown = ''final_audit_report_'' @ utc_now w (ticks w) @ ''.md'',
         report_json = ''final_audit_report_'' @ utc_now w (ticks w) @ ''.json''\<rparr>)\<rparr>)"
  by (simp add: generate_final_report_def io_defs Let_def)

lemma initialized_session:
  "session_file initialized_world = Some (the (session_file initialized_world))"
  by (simp add: initialized_world_def fresh_world_def initialize_session_def io_defs Let_def)

lemma tallied_session:
  "session_file tallied_world = Some ((the (session_file initialized_world))
      \<lparr>error_summary := \<lparr>critical = 1, high = 2, medium = 0, low = 3, total = 6\<rparr>\<rparr>)"
  by (simp add: tallied_world_def initialized_world_def fresh_world_def initialize_session_run
        update_error_count_def increment_level_def io_defs)

section \<open>The session after initialisation\<close>

text \<open>
  Claim C3. \<^verbatim>\<open>initialize_session\<close> succeeds in every world, and the session document it
  leaves has \<^verbatim>\<open>pages_remaining\<close> equal to the keys of the page table in the table's
  order (spelled out in the second equation), \<^verbatim>\<open>pages_completed\<close> empty and
  \<^verbatim>\<open>completion_percentage\<close> equal to 0.0.
\<close>

theorem initialize_session_progress:
  "\<exists>sid w' s. initialize_session w = (Inr sid, w') \<and> session_file w' = Some s
      \<and> pages_remaining (progress s) = map fst pages
      \<and> pages_remaining (progress s) =
          [''home'', ''dashboard'', ''products'', ''image-cataloging'', ''scan'', ''orders'',
           ''customers'', ''reports'', ''inventory-alerts'', ''ai-assistant'',
           ''ai-assistant-custom-agents'', ''ai-assistant-settings'', ''settings'']
      \<and> pages_completed (progress s) = []
      \<and> completion_percentage (progress s) = 0"
  by (simp add: initialize_session_run page_keys_eq [symmetric]) (simp add: page_keys_def)

section \<open>The health score\<close>

text \<open>
  Claim C6. With a session document on disk, \<^verbatim>\<open>generate_final_report\<close> succeeds and the
  summary it writes carries the session's error tally and the health score
  \<open>max 0 (100 - 25 * critical - 10 * high - 5 * medium - 1 * low)\<close>, for all integer
  counts and so for the non-negative ones; for the tally critical 1, high 2, medium 0,
  low 3 the score is 52.
\<close>

theorem health_score_formula:
  assumes "session_file w = Some s"
  shows "\<exists>w' rep. generate_final_report w = (Inr (), w')
           \<and> report_files w' (''final_audit_report_'' @ utc_now w (ticks w) @ ''.json'') = Some rep
           \<and> errors rep = error_summary s
           \<and> health_score rep =
               max 0 (100 - 25 * critical (error_summary s) - 10 * high (error_summary s)
                          - 5 * medium (error_summary s) - 1 * low (error_summary s))
           \<and> (critical (error_summary s) = 1 \<and> high (error_summary s) = 2
                \<and> medium (error_summary s) = 0 \<and> low (error_summary s) = 3
                \<longrightarrow> health_score rep = 52)"
  using assms by (simp add: generate_final_report_run compute_health_score_def Let_def)

theorem health_score_formula_witness:
  "\<exists>w' rep. generate_final_report tallied_world = (Inr (), w')
           \<and> report_files w' (''final_audit_report_'' @ utc_now tallied_world (ticks tallied_world)
                                 @ ''.json'') = Some rep
           \<and> errors rep = \<lparr>critical = 1, high = 2, medium = 0, low = 3, total = 6\<rparr>
           \<and> health_score rep = 52"
  using health_score_formula [OF tallied_session] by simp

section \<open>Micro checkpoints change nothing but the history\<close>

text \<open>
  Claim C9. With a session document on disk, \<^verbatim>\<open>create_micro_checkpoint\<close> returns its
  identifier and leaves a session document that is the old one with exactly one record
  appended to \<^verbatim>\<open>checkpoint_history\<close>: the record carries the identifier, the page, the
  phase and the status given. Every other field of the session (\<^verbatim>\<open>last_checkpoint\<close>,
  \<^verbatim>\<open>progress\<close>, \<^verbatim>\<open>error_summary\<close>, \<^verbatim>\<open>current_operation\<close>, \<^verbatim>\<open>session_id\<close>,
  \<^verbatim>\<open>recovery_metadata\<close>) is as before, and no snapshot file, results file, summary or
  report is written.
\<close>

theorem create_micro_checkpoint_frame:
  assumes "session_file w = Some s"
  shows "\<exists>cid w'. create_micro_checkpoint page_name phase st w = (Inr cid, w')
           \<and> session_file w' = Some (s\<lparr>checkpoint_history := checkpoint_history s @
                [\<lparr>cp_id = cid, cp_timestamp = utc_now w (ticks w), cp_type = ''MICRO'',
                  cp_page = Some page_name, cp_phase = Some phase, cp_status = st\<rparr>]\<rparr>)
           \<and> checkpoint_files w' = checkpoint_files w
           \<and> results_files w' = results_files w
           \<and> summary_files w' = summary_files w
           \<and> report_files w' = report_files w"
  using assms by (simp add: create_micro_checkpoint_run Let_def)

theorem create_micro_checkpoint_frame_witness:
  "session_file initialized_world = Some (the (session_file initialized_world)) \<and>
   (\<exists>cid w'. create_micro_checkpoint ''home'' ''accessibility_start'' ''IN_PROGRESS''
                initialized_world = (Inr cid, w')
           \<and> session_file w' = Some ((the (session_file initialized_world))
                \<lparr>checkpoint_history := checkpoint_history (the (session_file initialized_world)) @
                [\<lparr>cp_id = cid, cp_timestamp = utc_now initialized_world (ticks initialized_world),
                  cp_type = ''MICRO'', cp_page = Some ''home'',
                  cp_phase = Some ''accessibility_start'', cp_status = ''IN_PROGRESS''\<rparr>]\<rparr>)
           \<and> checkpoint_files w' = checkpoint_files initialized_world
           \<and> results_files w' = results_files initialized_world
           \<and> summary_files w' = summary_files initialized_world
           \<and> report_files w' = report_files initialized_world)"
  using create_micro_checkpoint_frame [OF initialized_session] initialized_session by blast

section \<open>Macro checkpoints\<close>

text \<open>
  The four ways \<^verbatim>\<open>create_checkpoint\<close> can go: another status than \<^verbatim>\<open>SUCCESS\<close>, a
  successful progress update, a division by zero, no session document. The counter is
  advanced in all four.
\<close>

lemma create_checkpoint_other:
  "session_file w = Some s \<Longrightarrow> st \<noteq> ''SUCCESS'' \<Longrightarrow>
   create_checkpoint p st w =
     (Inr (macro_id (next_counter w) p),
      w\<lparr>counter_file := Some (next_counter w + 1), issued := issued w @ [next_counter w],
        ticks := ticks w + 1,
        session_file := Some (macro_session w p st s),
        checkpoint_files := (checkpoint_files w)
          (checkpoint_file_name (macro_id (next_counter w) p) \<mapsto> macro_session w p st s)\<rparr>)"
  by (simp add: create_checkpoint_def get_next_checkpoint_counter_def write_checkpoint_file_def
        io_defs Let_def next_counter_def macro_id_def macro_session_def)

lemma create_checkpoint_success:
  "session_file w = Some s \<Longrightarrow> update_progress p (progress s) = Inr pr \<Longrightarrow>
   create_checkpoint p ''SUCCESS'' w =
     (Inr (macro_id (next_counter w) p),
      w\<lparr>counter_file := Some (next_counter w + 1), issued := issued w @ [next_counter w],
        ticks := ticks w + 1,
        session_file := Some ((macro_session w p ''SUCCESS'' s)\<lparr>progress := pr\<rparr>),
        checkpoint_files := (checkpoint_files w)
          (checkpoint_file_name (macro_id (next_counter w) p) \<mapsto>
             (macro_session w p ''SUCCESS'' s)\<lparr>progress := pr\<rparr>)\<rparr>)"
  by (simp add: create_checkpoint_def get_next_checkpoint_counter_def write_checkpoint_file_def
        io_defs Let_def next_counter_def macro_id_def macro_session_def)

lemma create_checkpoint_zero:
  "session_file w = Some s \<Longrightarrow> update_progress p (progress s) = Inl e \<Longrightarrow>
   create_checkpoint p ''SUCCESS'' w =
     (Inl e,
      w\<lparr>counter_file := Some (next_counter w + 1), issued := issued w @ [next_counter w],
        ticks := ticks w + 1\<rparr>)"
  by (simp add: create_checkpoint_def get_next_checkpoint_counter_def write_checkpoint_file_def
        io_defs Let_def next_counter_def macro_id_def macro_session_def)

lemma create_checkpoint_none:
  "session_file w = None \<Longrightarrow>
   create_checkpoint p st w =
     (Inl FileNotFoundError,
      w\<lparr>counter_file := Some (next_counter w + 1), issued := issued w @ [next_counter w],
        ticks := ticks w + 1\<rparr>)"
  by (simp add: create_checkpoint_def get_next_checkpoint_counter_def write_checkpoint_file_def
        io_defs Let_def next_counter_def)

lemma create_checkpoint_cases:
  obtains (none) "session_file w = None"
  | (other) s where "session_file w = Some s" "st \<noteq> ''SUCCESS''"
  | (success) s pr where "session_file w = Some s" "st = ''SUCCESS''" "update_progress p (progress s) = Inr pr"
  | (zero) s e where "session_file w = Some s" "st = ''SUCCESS''" "update_progress p (progress s) = Inl e"
  by (cases "session_file w"; cases "st = ''SUCCESS''"; cases "update_progress p (progress (the (session_file w)))") auto

lemma create_checkpoint_counter:
  "counter_file (snd (create_checkpoint p st w)) = Some (next_counter w + 1)
   \<and> issued (snd (create_checkpoint p st w)) = issued w @ [next_counter w]"
  by (rule create_checkpoint_cases [where w = w and p = p and st = st])
     (simp_all add: create_checkpoint_none create_checkpoint_other create_checkpoint_success create_checkpoint_zero)


lemma create_micro_checkpoint_counter:
  "counter_file (snd (create_micro_checkpoint p ph st w)) = Some (next_counter w + 1)
   \<and> issued (snd (create_micro_checkpoint p ph st w)) = issued w @ [next_counter w]"
  by (cases "session_file w")
     (simp_all add: create_micro_checkpoint_run create_micro_checkpoint_none next_counter_def Let_def)

lemma update_error_count_counter:
  "counter_file (snd (update_error_count l w)) = counter_file w
   \<and> issued (snd (update_error_count l w)) = issued w"
  by (simp add: update_error_count_def io_defs split: option.splits sum.splits)

lemma create_checkpoint_id:
  "fst (create_checkpoint p st w) = Inr cid \<Longrightarrow> cid = macro_id (next_counter w) p"
  by (rule create_checkpoint_cases [where w = w and p = p and st = st])
     (simp_all add: create_checkpoint_none create_checkpoint_other create_checkpoint_success
        create_checkpoint_zero)

lemma create_micro_checkpoint_id:
  "fst (create_micro_checkpoint p ph st w) = Inr cid \<Longrightarrow>
   cid = ''CP_'' @ format_03d (next_counter w) @ ''_'' @ upper p @ ''_'' @ upper ph"
  by (cases "session_file w")
     (auto simp add: create_micro_checkpoint_run create_micro_checkpoint_none next_counter_def Let_def)

lemma starts_with_append: "starts_with xs (xs @ ys)"
  by (simp add: starts_with_def)

lemma run_issued:
  "\<exists>new. issued (snd (run ops w)) = issued w @ new \<and> sorted_wrt (<) new
      \<and> (\<forall>c\<in>set new. next_counter w \<le> c)
      \<and> list_all2 embeds new (fst (run ops w))"
proof (induction ops arbitrary: w)
  case Nil
  show ?case by simp
next
  case (Cons a ops)
  show ?case
  proof (cases a)
    case (Create_checkpoint p st)
    let ?w1 = "snd (create_checkpoint p st w)"
    obtain new where n: "issued (snd (run ops ?w1)) = issued ?w1 @ new" "sorted_wrt (<) new"
      "\<forall>c\<in>set new. next_counter ?w1 \<le> c" "list_all2 embeds new (fst (run ops ?w1))"
      using Cons.IH [of ?w1] by blast
    have c: "next_counter ?w1 = next_counter w + 1"
      using create_checkpoint_counter [of p st w] by (simp add: next_counter_def)
    have e: "embeds (next_counter w) (fst (create_checkpoint p st w))"
      using create_checkpoint_id [of p st w]
      by (cases "fst (create_checkpoint p st w)")
         (simp_all add: embeds_def macro_id_def starts_with_def)
    have "issued (snd (run (a # ops) w)) = issued w @ (next_counter w # new)"
      using n(1) create_checkpoint_counter [of p st w] Create_checkpoint
      by (simp add: split_beta Let_def)
    moreover have "sorted_wrt (<) (next_counter w # new)"
      using n(2,3) c by auto
    moreover have "\<forall>c\<in>set (next_counter w # new). next_counter w \<le> c"
      using n(3) c by auto
    moreover have "list_all2 embeds (next_counter w # new) (fst (run (a # ops) w))"
      using n(4) e Create_checkpoint by (simp add: split_beta Let_def)
    ultimately show ?thesis by blast
  next
    case (Create_micro_checkpoint p ph st)
    let ?w1 = "snd (create_micro_checkpoint p ph st w)"
    obtain new where n: "issued (snd (run ops ?w1)) = issued ?w1 @ new" "sorted_wrt (<) new"
      "\<forall>c\<in>set new. next_counter ?w1 \<le> c" "list_all2 embeds new (fst (run ops ?w1))"
      using Cons.IH [of ?w1] by blast
    have c: "next_counter ?w1 = next_counter w + 1"
      using create_micro_checkpoint_counter [of p ph st w] by (simp add: next_counter_def)
    have e: "embeds (next_counter w) (fst (create_micro_checkpoint p ph st w))"
      using create_micro_checkpoint_id [of p ph st w]
      by (cases "fst (create_micro_checkpoint p ph st w)")
         (simp_all add: embeds_def starts_with_def)
    have "issued (snd (run (a # ops) w)) = issued w @ (next_counter w # new)"
      using n(1) create_micro_checkpoint_counter [of p ph st w] Create_micro_checkpoint
      by (simp add: split_beta Let_def)
    moreover have "sorted_wrt (<) (next_counter w # new)"
      using n(2,3) c by auto
    moreover have "\<forall>c\<in>set (next_counter w # new). next_counter w \<le> c"
      using n(3) c by auto
    moreover have "list_all2 embeds (next_counter w # new) (fst (run (a # ops) w))"
      using n(4) e Create_micro_checkpoint by (simp add: split_beta Let_def)
    ultimately show ?thesis by blast
  next
    case (Update_error_count l)
    let ?w1 = "snd (update_error_count l w)"
    have "next_counter ?w1 = next_counter w" "issued ?w1 = issued w"
      using update_error_count_counter [of l w] by (simp_all add: next_counter_def)
    then show ?thesis using Cons.IH [of ?w1] Update_error_count by simp
  next
    case Restart
    then show ?thesis using Cons.IH [of w] by simp
  qed
qed

section \<open>The format of the counter is injective\<close>

lemma lt10_cases:
  "d < 10 \<Longrightarrow> d = 0 \<or> d = 1 \<or> d = 2 \<or> d = 3 \<or> d = 4 \<or> d = 5 \<or> d = 6 \<or> d = 7 \<or> d = 8 \<or> d = (9::nat)"
  by arith

lemma digit_of_digit_char: "d < 10 \<Longrightarrow> digit_of (digit_char d) = d"
  using lt10_cases [of d] by (auto simp add: digit_of_def digit_char_def)

lemma digit_char_in: "d < 10 \<Longrightarrow> digit_char d \<in> set ''0123456789''"
  using lt10_cases [of d] by (auto simp add: digit_char_def)

lemma digits_val_snoc: "digits_val (s @ [c]) = 10 * digits_val s + digit_of c"
  by (simp add: digits_val_def)

lemma digits_val_str_nat: "digits_val (str_nat n) = n"
proof (induction n rule: str_nat.induct)
  case (1 n)
  show ?case
  proof (cases "n < 10")
    case True
    then show ?thesis
      by (subst str_nat.simps) (simp add: digits_val_def digit_of_digit_char)
  next
    case False
    then have "digits_val (str_nat (n div 10)) = n div 10" using 1 by simp
    then show ?thesis using False
      by (subst str_nat.simps) (simp add: digits_val_snoc digit_of_digit_char)
  qed
qed

lemma set_str_nat: "set (str_nat n) \<subseteq> set ''0123456789''"
proof (induction n rule: str_nat.induct)
  case (1 n)
  show ?case
  proof (cases "n < 10")
    case True
    then show ?thesis using digit_char_in [of n]
      by (subst str_nat.simps) simp
  next
    case False
    then have "set (str_nat (n div 10)) \<subseteq> set ''0123456789''" using 1 by simp
    moreover have "digit_char (n mod 10) \<in> set ''0123456789''"
      by (rule digit_char_in) simp
    ultimately show ?thesis using False
      by (subst str_nat.simps) simp
  qed
qed

lemma str_nat_nonempty: "str_nat n \<noteq> []"
  by (subst str_nat.simps) simp

lemma digits_val_zero_pad: "digits_val (zero_pad k s) = digits_val s"
proof -
  have "foldl (\<lambda>a c. 10 * a + digit_of c) 0 (replicate m (CHR ''0'')) = 0" for m
    by (induction m) (simp_all add: digit_of_def)
  then show ?thesis by (simp add: zero_pad_def digits_val_def)
qed

lemma set_zero_pad: "set (zero_pad k (str_nat n)) \<subseteq> set ''0123456789''"
  using set_str_nat [of n] by (auto simp add: zero_pad_def)

lemma zero_pad_nonempty: "zero_pad k (str_nat n) \<noteq> []"
  by (simp add: zero_pad_def str_nat_nonempty)

lemma format_03d_inj: "format_03d a = format_03d b \<Longrightarrow> a = b"
proof -
  assume eq: "format_03d a = format_03d b"
  have pos: "hd (zero_pad 3 (str_nat n)) \<noteq> CHR ''-''" for n
  proof -
    have "hd (zero_pad 3 (str_nat n)) \<in> set (zero_pad 3 (str_nat n))"
      using zero_pad_nonempty by (rule hd_in_set)
    then have "hd (zero_pad 3 (str_nat n)) \<in> set ''0123456789''"
      using set_zero_pad by blast
    then show ?thesis by auto
  qed
  show ?thesis
  proof (cases "a < 0"; cases "b < 0")
    assume "a < 0" "b < 0"
    then have "zero_pad 2 (str_nat (nat (- a))) = zero_pad 2 (str_nat (nat (- b)))"
      using eq by (simp add: format_03d_def)
    then have "digits_val (zero_pad 2 (str_nat (nat (- a)))) = digits_val (zero_pad 2 (str_nat (nat (- b))))"
      by simp
    then have "nat (- a) = nat (- b)" by (simp add: digits_val_zero_pad digits_val_str_nat)
    then show ?thesis using \<open>a < 0\<close> \<open>b < 0\<close> by simp
  next
    assume "a < 0" "\<not> b < 0"
    then have "CHR ''-'' # zero_pad 2 (str_nat (nat (- a))) = zero_pad 3 (str_nat (nat b))"
      using eq by (simp add: format_03d_def)
    then have "hd (zero_pad 3 (str_nat (nat b))) = CHR ''-''" by (metis list.sel(1))
    then show ?thesis using pos by blast
  next
    assume "\<not> a < 0" "b < 0"
    then have "zero_pad 3 (str_nat (nat a)) = CHR ''-'' # zero_pad 2 (str_nat (nat (- b)))"
      using eq by (simp add: format_03d_def)
    then have "hd (zero_pad 3 (str_nat (nat a))) = CHR ''-''" by (metis list.sel(1))
    then show ?thesis using pos by blast
  next
    assume "\<not> a < 0" "\<not> b < 0"
    then have "zero_pad 3 (str_nat (nat a)) = zero_pad 3 (str_nat (nat b))"
      using eq by (simp add: format_03d_def)
    then have "digits_val (zero_pad 3 (str_nat (nat a))) = digits_val (zero_pad 3 (str_nat (nat b)))"
      by simp
    then have "nat a = nat b" by (simp add: digits_val_zero_pad digits_val_str_nat)
    then show ?thesis using \<open>\<not> a < 0\<close> \<open>\<not> b < 0\<close> by simp
  qed
qed

lemma format_03d_no_underscore: "CHR ''_'' \<notin> set (format_03d a)"
  using set_zero_pad [of 2 "nat (- a)"] set_zero_pad [of 3 "nat a"]
  by (auto simp add: format_03d_def)

lemma takeWhile_underscore:
  assumes "CHR ''_'' \<notin> set a"
  shows "takeWhile (\<lambda>c. c \<noteq> CHR ''_'') (a @ CHR ''_'' # x) = a"
proof -
  have "takeWhile (\<lambda>c. c \<noteq> CHR ''_'') (a @ CHR ''_'' # x)
      = a @ takeWhile (\<lambda>c. c \<noteq> CHR ''_'') (CHR ''_'' # x)"
    by (rule takeWhile_append2) (use assms in auto)
  then show ?thesis by simp
qed

lemma split_at_underscore:
  assumes "CHR ''_'' \<notin> set a" "CHR ''_'' \<notin> set b" "a @ CHR ''_'' # x = b @ CHR ''_'' # y"
  shows "a = b"
  using takeWhile_underscore [OF assms(1), of x] takeWhile_underscore [OF assms(2), of y] assms(3)
  by simp

lemma starts_withD: "starts_with p s \<Longrightarrow> \<exists>r. s = p @ r"
  unfolding starts_with_def by (metis append_take_drop_id)

lemma embeds_same_id:
  assumes "embeds a (Inr cid)" "embeds b (Inr cid)"
  shows "a = b"
proof -
  obtain ra where a: "cid = (''CP_'' @ format_03d a @ ''_'') @ ra"
    using assms(1) starts_withD unfolding embeds_def by fastforce
  obtain rb where b: "cid = (''CP_'' @ format_03d b @ ''_'') @ rb"
    using assms(2) starts_withD unfolding embeds_def by fastforce
  have "format_03d a @ CHR ''_'' # ra = format_03d b @ CHR ''_'' # rb"
    using a b by simp
  then have "format_03d a = format_03d b"
    using split_at_underscore format_03d_no_underscore by blast
  then show ?thesis by (rule format_03d_inj)
qed

lemma returned_ids_embed:
  "list_all2 embeds cs rs \<Longrightarrow> cid \<in> set (returned_ids rs) \<Longrightarrow> \<exists>c\<in>set cs. embeds c (Inr cid)"
proof (induction rule: list_all2_induct)
  case Nil
  then show ?case by simp
next
  case (Cons c cs r rs)
  then show ?case by (cases r) auto
qed

lemma returned_ids_distinct:
  "list_all2 embeds cs rs \<Longrightarrow> distinct cs \<Longrightarrow> distinct (returned_ids rs)"
proof (induction rule: list_all2_induct)
  case Nil
  then show ?case by simp
next
  case (Cons c cs r rs)
  show ?case
  proof (cases r)
    case (Inl e)
    then show ?thesis using Cons by simp
  next
    case (Inr cid)
    have "cid \<notin> set (returned_ids rs)"
    proof
      assume "cid \<in> set (returned_ids rs)"
      then obtain c' where "c' \<in> set cs" "embeds c' (Inr cid)"
        using returned_ids_embed [OF Cons.hyps(2)] by blast
      moreover have "embeds c (Inr cid)" using Cons.hyps(1) Inr by simp
      ultimately have "c = c'" using embeds_same_id by blast
      then show False using \<open>c' \<in> set cs\<close> Cons.prems by simp
    qed
    then show ?thesis using Cons Inr by simp
  qed
qed

lemma sorted_wrt_less_distinct: "sorted_wrt (<) (xs :: int list) \<Longrightarrow> distinct xs"
  by (induction xs) auto


section \<open>The checkpoint counter\<close>

text \<open>
  Claim C1. Take any world and any finite sequence of macro and micro checkpoint
  creations, interleaved in any order with each other, with \<^verbatim>\<open>update_error_count\<close> and
  with process restarts, some of the creations possibly raising. The values
  \<^verbatim>\<open>get_next_checkpoint_counter\<close> returns during the sequence (\<open>new\<close>) are strictly
  increasing, hence pairwise different; the identifier each creation returns begins with
  \<^verbatim>\<open>CP_\<close> and the value drawn for it; and the identifiers returned are pairwise
  different.
\<close>

theorem checkpoint_counter_strictly_increasing:
  "\<exists>new. issued (snd (run ops w)) = issued w @ new
      \<and> sorted_wrt (<) new \<and> distinct new
      \<and> list_all2 embeds new (fst (run ops w))
      \<and> distinct (returned_ids (fst (run ops w)))"
proof -
  obtain new where n: "issued (snd (run ops w)) = issued w @ new" "sorted_wrt (<) new"
    "list_all2 embeds new (fst (run ops w))"
    using run_issued [of ops w] by blast
  have d: "distinct new" using n(2) by (rule sorted_wrt_less_distinct)
  have "distinct (returned_ids (fst (run ops w)))"
    using n(3) d by (rule returned_ids_distinct)
  then show ?thesis using n d by blast
qed

theorem checkpoint_counter_strictly_increasing_witness:
  "\<exists>new. issued (snd (run [Create_micro_checkpoint ''home'' ''accessibility_start'' ''IN_PROGRESS'',
                            Restart, Create_checkpoint ''home'' ''SUCCESS'', Restart,
                            Create_micro_checkpoint ''scan'' ''accessibility_start'' ''IN_PROGRESS'']
                       initialized_world)) = issued initialized_world @ new
      \<and> sorted_wrt (<) new \<and> distinct new
      \<and> list_all2 embeds new
           (fst (run [Create_micro_checkpoint ''home'' ''accessibility_start'' ''IN_PROGRESS'',
                      Restart, Create_checkpoint ''home'' ''SUCCESS'', Restart,
                      Create_micro_checkpoint ''scan'' ''accessibility_start'' ''IN_PROGRESS'']
                 initialized_world))
      \<and> distinct (returned_ids
           (fst (run [Create_micro_checkpoint ''home'' ''accessibility_start'' ''IN_PROGRESS'',
                      Restart, Create_checkpoint ''home'' ''SUCCESS'', Restart,
                      Create_micro_checkpoint ''scan'' ''accessibility_start'' ''IN_PROGRESS'']
                 initialized_world)))"
  by (rule checkpoint_counter_strictly_increasing)


section \<open>What every reachable session satisfies\<close>

lemma run_Cons: "snd (run (a # ops) w) = snd (run ops (after a w))"
  by (cases a) (simp_all add: after_def split_beta Let_def)

lemma update_progress_ok:
  "total_pages pr \<noteq> 0 \<Longrightarrow>
   update_progress p pr =
     Inr (pr\<lparr>pages_completed := (if p \<in> set (pages_completed pr) then pages_completed pr
                                   else pages_completed pr @ [p]),
            pages_remaining := remove1 p (pages_remaining pr),
            completion_percentage :=
              round1 (of_int (int (length (if p \<in> set (pages_completed pr) then pages_completed pr
                                           else pages_completed pr @ [p])) * 100)
                      / of_int (total_pages pr))\<rparr>)"
  by (simp add: update_progress_def Let_def remove1_idem)

lemma create_checkpoint_session:
  assumes "session_file w = Some s" "total_pages (progress s) \<noteq> 0"
  shows "\<exists>cid. create_checkpoint p st w = (Inr cid, snd (create_checkpoint p st w))"
    and "session_file (snd (create_checkpoint p st w)) =
         Some (if st = ''SUCCESS''
               then (macro_session w p st s)\<lparr>progress := projr (update_progress p (progress s))\<rparr>
               else macro_session w p st s)"
proof -
  have u: "update_progress p (progress s) = Inr (projr (update_progress p (progress s)))"
    using update_progress_ok [OF assms(2), of p] by simp
  show "\<exists>cid. create_checkpoint p st w = (Inr cid, snd (create_checkpoint p st w))"
    using create_checkpoint_other [OF assms(1), of st p] create_checkpoint_success [OF assms(1) u]
    by (cases "st = ''SUCCESS''") simp_all
  show "session_file (snd (create_checkpoint p st w)) =
         Some (if st = ''SUCCESS''
               then (macro_session w p st s)\<lparr>progress := projr (update_progress p (progress s))\<rparr>
               else macro_session w p st s)"
    using create_checkpoint_other [OF assms(1), of st p] create_checkpoint_success [OF assms(1) u]
    by (cases "st = ''SUCCESS''") simp_all
qed

lemma progress_macro_session [simp]: "progress (macro_session w p st s) = progress s"
  by (simp add: macro_session_def Let_def)

lemma error_summary_macro_session [simp]: "error_summary (macro_session w p st s) = error_summary s"
  by (simp add: macro_session_def Let_def)

lemma disjoint_progress_update:
  assumes "disjoint_progress pr"
  shows "disjoint_progress (projr (update_progress p pr))"
proof -
  have t: "total_pages pr \<noteq> 0" using assms by (simp add: disjoint_progress_def)
  show ?thesis
    using assms by (auto simp add: update_progress_ok [OF t] disjoint_progress_def)
qed

lemma covers_registry_update:
  assumes "disjoint_progress pr" "covers_registry pr" "p \<in> set page_keys"
  shows "covers_registry (projr (update_progress p pr))"
proof -
  have t: "total_pages pr \<noteq> 0" using assms by (simp add: disjoint_progress_def)
  show ?thesis
    using assms by (auto simp add: update_progress_ok [OF t] disjoint_progress_def covers_registry_def)
qed

lemma after_simps:
  "after (Create_checkpoint p st) w = snd (create_checkpoint p st w)"
  "after (Create_micro_checkpoint p ph st) w = snd (create_micro_checkpoint p ph st w)"
  "after (Update_error_count l) w = snd (update_error_count l w)"
  "after Restart w = w"
  by (simp_all add: after_def split_beta Let_def)

lemma update_error_count_session:
  assumes "session_file w = Some s"
  shows "\<exists>s'. session_file (snd (update_error_count l w)) = Some s'
           \<and> progress s' = progress s
           \<and> (l \<in> {''critical'', ''high'', ''medium'', ''low''} \<longrightarrow>
                tally_consistent (error_summary s) \<longrightarrow> tally_consistent (error_summary s'))"
  using assms
  by (auto simp add: update_error_count_def io_defs increment_level_def tally_consistent_def)

lemma after_session:
  assumes "session_file w = Some s" "disjoint_progress (progress s)"
  shows "\<exists>s'. session_file (after a w) = Some s' \<and> disjoint_progress (progress s')
           \<and> (from_registry a \<longrightarrow> covers_registry (progress s) \<longrightarrow> covers_registry (progress s'))
           \<and> (known_severity a \<longrightarrow> tally_consistent (error_summary s)
                \<longrightarrow> tally_consistent (error_summary s'))"
proof (cases a)
  case (Create_checkpoint p st)
  have t: "total_pages (progress s) \<noteq> 0" using assms(2) by (simp add: disjoint_progress_def)
  show ?thesis
    using assms Create_checkpoint create_checkpoint_session(2) [OF assms(1) t, of p st]
      disjoint_progress_update [OF assms(2), of p]
      covers_registry_update [OF assms(2), of p]
    by (simp add: after_simps)
next
  case (Create_micro_checkpoint p ph st)
  then show ?thesis
    using assms by (simp add: after_simps create_micro_checkpoint_run Let_def)
next
  case (Update_error_count l)
  then show ?thesis
    using assms update_error_count_session [OF assms(1), of l]
    by (auto simp add: after_simps)
next
  case Restart
  then show ?thesis using assms by (simp add: after_simps)
qed

lemma run_session:
  assumes "session_file w = Some s" "disjoint_progress (progress s)"
  shows "\<exists>s'. session_file (snd (run ops w)) = Some s' \<and> disjoint_progress (progress s')
           \<and> (list_all from_registry ops \<longrightarrow> covers_registry (progress s)
                \<longrightarrow> covers_registry (progress s'))
           \<and> (list_all known_severity ops \<longrightarrow> tally_consistent (error_summary s)
                \<longrightarrow> tally_consistent (error_summary s'))"
  using assms
proof (induction ops arbitrary: w s)
  case Nil
  then show ?case by simp
next
  case (Cons a ops)
  obtain s1 where s1: "session_file (after a w) = Some s1" "disjoint_progress (progress s1)"
    "from_registry a \<longrightarrow> covers_registry (progress s) \<longrightarrow> covers_registry (progress s1)"
    "known_severity a \<longrightarrow> tally_consistent (error_summary s) \<longrightarrow> tally_consistent (error_summary s1)"
    using after_session [OF Cons.prems, of a] by blast
  obtain s2 where s2: "session_file (snd (run ops (after a w))) = Some s2"
    "disjoint_progress (progress s2)"
    "list_all from_registry ops \<longrightarrow> covers_registry (progress s1) \<longrightarrow> covers_registry (progress s2)"
    "list_all known_severity ops \<longrightarrow> tally_consistent (error_summary s1)
       \<longrightarrow> tally_consistent (error_summary s2)"
    using Cons.IH [OF s1(1,2)] by blast
  show ?case using s1 s2 by (simp add: run_Cons)
qed

lemma initialized_invariants:
  "\<exists>s. session_file (snd (initialize_session w0)) = Some s \<and> disjoint_progress (progress s)
       \<and> covers_registry (progress s) \<and> tally_consistent (error_summary s)"
  using distinct_page_keys
  by (simp add: initialize_session_run disjoint_progress_def covers_registry_def tally_consistent_def)

lemma reachable_session:
  "\<exists>s. session_file (snd (run ops (snd (initialize_session w0)))) = Some s
       \<and> disjoint_progress (progress s)
       \<and> (list_all from_registry ops \<longrightarrow> covers_registry (progress s))
       \<and> (list_all known_severity ops \<longrightarrow> tally_consistent (error_summary s))"
proof -
  obtain s0 where s0: "session_file (snd (initialize_session w0)) = Some s0"
    "disjoint_progress (progress s0)" "covers_registry (progress s0)"
    "tally_consistent (error_summary s0)"
    using initialized_invariants [of w0] by blast
  show ?thesis using run_session [OF s0(1,2), of ops] s0(3,4) by blast
qed


section \<open>Completed and remaining pages partition the page table\<close>

text \<open>
  Claim C2. Start from \<^verbatim>\<open>initialize_session\<close> in any world and perform any sequence of
  \<^verbatim>\<open>create_checkpoint\<close> (with any status, for pages of the page table),
  \<^verbatim>\<open>create_micro_checkpoint\<close> and \<^verbatim>\<open>update_error_count\<close> (with restarts between them).
  The session document then exists, \<^verbatim>\<open>pages_completed\<close> and \<^verbatim>\<open>pages_remaining\<close> have no
  page in common, and together they hold exactly the keys of the page table.
\<close>

theorem pages_partition_registry:
  assumes "list_all from_registry ops"
  shows "\<exists>s. session_file (snd (run ops (snd (initialize_session w0)))) = Some s
           \<and> set (pages_completed (progress s)) \<inter> set (pages_remaining (progress s)) = {}
           \<and> set (pages_completed (progress s)) \<union> set (pages_remaining (progress s))
               = set (map fst pages)"
  using reachable_session [of ops w0] assms
  by (auto simp add: disjoint_progress_def covers_registry_def page_keys_def)


theorem pages_partition_registry_witness:
  "list_all from_registry example_operations
   \<and> (\<exists>s. session_file (snd (run example_operations (snd (initialize_session fresh_world)))) = Some s
           \<and> set (pages_completed (progress s)) \<inter> set (pages_remaining (progress s)) = {}
           \<and> set (pages_completed (progress s)) \<union> set (pages_remaining (progress s))
               = set (map fst pages))"
proof -
  have h: "list_all from_registry example_operations"
    by (simp add: example_operations_def page_keys_eq)
  show ?thesis using h pages_partition_registry [OF h, of fresh_world] by blast
qed


section \<open>The error total is the sum of the four severities\<close>

text \<open>
  Claim C10. Start from \<^verbatim>\<open>initialize_session\<close> in any world and perform any sequence of
  \<^verbatim>\<open>update_error_count\<close> (with a level among critical, high, medium and low),
  \<^verbatim>\<open>create_checkpoint\<close> and \<^verbatim>\<open>create_micro_checkpoint\<close>. In the session document then on
  disk, \<^verbatim>\<open>error_summary.total\<close> is the sum of the four severity counts.
\<close>

theorem error_total_is_sum:
  assumes "list_all known_severity ops"
  shows "\<exists>s. session_file (snd (run ops (snd (initialize_session w0)))) = Some s
           \<and> total (error_summary s)
               = critical (error_summary s) + high (error_summary s)
                 + medium (error_summary s) + low (error_summary s)"
  using reachable_session [of ops w0] assms
  by (auto simp add: tally_consistent_def)

theorem error_total_is_sum_witness:
  "list_all known_severity example_operations
   \<and> (\<exists>s. session_file (snd (run example_operations (snd (initialize_session fresh_world)))) = Some s
           \<and> total (error_summary s)
               = critical (error_summary s) + high (error_summary s)
                 + medium (error_summary s) + low (error_summary s))"
proof -
  have h: "list_all known_severity example_operations"
    by (simp add: example_operations_def)
  show ?thesis using h error_total_is_sum [OF h, of fresh_world] by blast
qed


section \<open>A successful macro checkpoint moves its page once\<close>

lemma count_list_distinct: "distinct xs \<Longrightarrow> x \<in> set xs \<Longrightarrow> count_list xs x = 1"
  by (induction xs) (auto simp add: count_list_0_iff)

lemma count_list_snoc_new: "x \<notin> set xs \<Longrightarrow> count_list (xs @ [x]) x = 1"
  by (simp add: count_list_0_iff)

lemma update_progress_moves:
  assumes "disjoint_progress pr"
  shows "pages_remaining (projr (update_progress p pr)) = remove1 p (pages_remaining pr)"
    and "p \<in> set (pages_remaining pr) \<Longrightarrow>
         pages_completed (projr (update_progress p pr)) = pages_completed pr @ [p]"
    and "count_list (pages_completed (projr (update_progress p pr))) p = 1"
    and "p \<notin> set (pages_remaining (projr (update_progress p pr)))"
    and "total_pages (projr (update_progress p pr)) = total_pages pr"
proof -
  have t: "total_pages pr \<noteq> 0" using assms by (simp add: disjoint_progress_def)
  show "pages_remaining (projr (update_progress p pr)) = remove1 p (pages_remaining pr)"
    by (simp add: update_progress_ok [OF t])
  show "pages_completed (projr (update_progress p pr)) = pages_completed pr @ [p]"
    if "p \<in> set (pages_remaining pr)"
    using that assms by (auto simp add: update_progress_ok [OF t] disjoint_progress_def)
  show "count_list (pages_completed (projr (update_progress p pr))) p = 1"
    using assms
    by (simp add: update_progress_ok [OF t] disjoint_progress_def count_list_distinct
          count_list_snoc_new)
  show "p \<notin> set (pages_remaining (projr (update_progress p pr)))"
    using assms by (simp add: update_progress_ok [OF t] disjoint_progress_def)
  show "total_pages (projr (update_progress p pr)) = total_pages pr"
    by (simp add: update_progress_ok [OF t])
qed

lemma update_progress_again:
  assumes "total_pages pr \<noteq> 0" "p \<in> set (pages_completed pr)" "p \<notin> set (pages_remaining pr)"
    "completion_percentage pr
       = round1 (of_int (int (length (pages_completed pr)) * 100) / of_int (total_pages pr))"
  shows "projr (update_progress p pr) = pr"
  using assms by (simp add: update_progress_ok remove1_idem)

lemma update_progress_percentage:
  assumes "total_pages pr \<noteq> 0"
  shows "completion_percentage (projr (update_progress p pr))
       = round1 (of_int (int (length (pages_completed (projr (update_progress p pr)))) * 100)
                 / of_int (total_pages (projr (update_progress p pr))))"
  by (simp add: update_progress_ok [OF assms])

lemma count_list_pos_mem: "count_list xs x = 1 \<Longrightarrow> x \<in> set xs"
  using count_list_0_iff [of xs x] by auto


text \<open>
  Claim C4. In every world reached from \<^verbatim>\<open>initialize_session\<close> by a sequence of the
  operations, \<^verbatim>\<open>create_checkpoint\<close> with status \<^verbatim>\<open>SUCCESS\<close> returns, removes the page from
  \<^verbatim>\<open>pages_remaining\<close> and, if the page was remaining, appends it to \<^verbatim>\<open>pages_completed\<close>;
  afterwards the page is in \<^verbatim>\<open>pages_completed\<close> exactly once and not in
  \<^verbatim>\<open>pages_remaining\<close>. A second call with the same page and status returns as well and
  leaves the whole progress record, and so the two lists and \<^verbatim>\<open>completion_percentage\<close>,
  as the first call left it. The checkpoint history is not idempotent: the second call
  appends one more record.
\<close>

theorem create_checkpoint_success_idempotent:
  "\<exists>s s1 s2 c1 c2 w1 w2.
      session_file (snd (run ops (snd (initialize_session w0)))) = Some s
    \<and> create_checkpoint page_name ''SUCCESS'' (snd (run ops (snd (initialize_session w0))))
        = (Inr c1, w1)
    \<and> session_file w1 = Some s1
    \<and> create_checkpoint page_name ''SUCCESS'' w1 = (Inr c2, w2)
    \<and> session_file w2 = Some s2
    \<and> pages_remaining (progress s1) = remove1 page_name (pages_remaining (progress s))
    \<and> (page_name \<in> set (pages_remaining (progress s)) \<longrightarrow>
         pages_completed (progress s1) = pages_completed (progress s) @ [page_name])
    \<and> count_list (pages_completed (progress s1)) page_name = 1
    \<and> page_name \<notin> set (pages_remaining (progress s1))
    \<and> progress s2 = progress s1
    \<and> count_list (pages_completed (progress s2)) page_name = 1
    \<and> page_name \<notin> set (pages_remaining (progress s2))
    \<and> completion_percentage (progress s2) = completion_percentage (progress s1)
    \<and> length (checkpoint_history s2) = length (checkpoint_history s1) + 1"
proof -
  let ?w = "snd (run ops (snd (initialize_session w0)))"
  obtain s where s: "session_file ?w = Some s" "disjoint_progress (progress s)"
    using reachable_session [of ops w0] by blast
  have t: "total_pages (progress s) \<noteq> 0" using s(2) by (simp add: disjoint_progress_def)
  let ?w1 = "snd (create_checkpoint page_name ''SUCCESS'' ?w)"
  let ?p1 = "projr (update_progress page_name (progress s))"
  let ?s1 = "(macro_session ?w page_name ''SUCCESS'' s)\<lparr>progress := ?p1\<rparr>"
  obtain c1 where c1: "create_checkpoint page_name ''SUCCESS'' ?w = (Inr c1, ?w1)"
    using create_checkpoint_session(1) [OF s(1) t] by blast
  have s1: "session_file ?w1 = Some ?s1"
    using create_checkpoint_session(2) [OF s(1) t, of page_name "''SUCCESS''"] by simp
  have p1: "progress ?s1 = ?p1" by simp
  note m = update_progress_moves [OF s(2), of page_name]
  have t1: "total_pages (progress ?s1) \<noteq> 0" using m(5) t by simp
  let ?w2 = "snd (create_checkpoint page_name ''SUCCESS'' ?w1)"
  let ?s2 = "(macro_session ?w1 page_name ''SUCCESS'' ?s1)
               \<lparr>progress := projr (update_progress page_name (progress ?s1))\<rparr>"
  obtain c2 where c2: "create_checkpoint page_name ''SUCCESS'' ?w1 = (Inr c2, ?w2)"
    using create_checkpoint_session(1) [OF s1 t1] by blast
  have s2: "session_file ?w2 = Some ?s2"
    using create_checkpoint_session(2) [OF s1 t1, of page_name "''SUCCESS''"] by simp
  have again: "projr (update_progress page_name ?p1) = ?p1"
  proof (rule update_progress_again)
    show "total_pages ?p1 \<noteq> 0" using m(5) t by simp
    show "page_name \<in> set (pages_completed ?p1)" using m(3) by (rule count_list_pos_mem)
    show "page_name \<notin> set (pages_remaining ?p1)" by (rule m(4))
    show "completion_percentage ?p1
       = round1 (of_int (int (length (pages_completed ?p1)) * 100) / of_int (total_pages ?p1))"
      by (rule update_progress_percentage [OF t])
  qed
  have p2: "progress ?s2 = ?p1" using again by simp
  have h: "length (checkpoint_history ?s2) = length (checkpoint_history ?s1) + 1"
    by (simp add: macro_session_def Let_def)
  have final:
     "session_file ?w = Some s
    \<and> create_checkpoint page_name ''SUCCESS'' ?w = (Inr c1, ?w1)
    \<and> session_file ?w1 = Some ?s1
    \<and> create_checkpoint page_name ''SUCCESS'' ?w1 = (Inr c2, ?w2)
    \<and> session_file ?w2 = Some ?s2
    \<and> pages_remaining (progress ?s1) = remove1 page_name (pages_remaining (progress s))
    \<and> (page_name \<in> set (pages_remaining (progress s)) \<longrightarrow>
         pages_completed (progress ?s1) = pages_completed (progress s) @ [page_name])
    \<and> count_list (pages_completed (progress ?s1)) page_name = 1
    \<and> page_name \<notin> set (pages_remaining (progress ?s1))
    \<and> progress ?s2 = progress ?s1
    \<and> count_list (pages_completed (progress ?s2)) page_name = 1
    \<and> page_name \<notin> set (pages_remaining (progress ?s2))
    \<and> completion_percentage (progress ?s2) = completion_percentage (progress ?s1)
    \<and> length (checkpoint_history ?s2) = length (checkpoint_history ?s1) + 1"
    using s(1) c1 s1 c2 s2 m(1,2,3,4) p1 p2 h by simp
  show ?thesis
    by (rule exI)+ (rule final)
qed

theorem create_checkpoint_success_idempotent_witness:
  "\<exists>s s1 s2 c1 c2 w1 w2.
      session_file initialized_world = Some s
    \<and> create_checkpoint ''home'' ''SUCCESS'' initialized_world = (Inr c1, w1)
    \<and> session_file w1 = Some s1
    \<and> create_checkpoint ''home'' ''SUCCESS'' w1 = (Inr c2, w2)
    \<and> session_file w2 = Some s2
    \<and> ''home'' \<in> set (pages_remaining (progress s))
    \<and> pages_remaining (progress s1) = remove1 ''home'' (pages_remaining (progress s))
    \<and> pages_completed (progress s1) = pages_completed (progress s) @ [''home'']
    \<and> count_list (pages_completed (progress s1)) ''home'' = 1
    \<and> ''home'' \<notin> set (pages_remaining (progress s1))
    \<and> progress s2 = progress s1
    \<and> count_list (pages_completed (progress s2)) ''home'' = 1
    \<and> ''home'' \<notin> set (pages_remaining (progress s2))
    \<and> completion_percentage (progress s2) = completion_percentage (progress s1)
    \<and> length (checkpoint_history s2) = length (checkpoint_history s1) + 1"
proof -
  obtain s s1 s2 c1 c2 w1 w2 where f:
    "session_file initialized_world = Some s"
    "create_checkpoint ''home'' ''SUCCESS'' initialized_world = (Inr c1, w1)"
    "session_file w1 = Some s1"
    "create_checkpoint ''home'' ''SUCCESS'' w1 = (Inr c2, w2)"
    "session_file w2 = Some s2"
    "pages_remaining (progress s1) = remove1 ''home'' (pages_remaining (progress s))"
    "''home'' \<in> set (pages_remaining (progress s)) \<longrightarrow>
       pages_completed (progress s1) = pages_completed (progress s) @ [''home'']"
    "count_list (pages_completed (progress s1)) ''home'' = 1"
    "''home'' \<notin> set (pages_remaining (progress s1))"
    "progress s2 = progress s1"
    "count_list (pages_completed (progress s2)) ''home'' = 1"
    "''home'' \<notin> set (pages_remaining (progress s2))"
    "completion_percentage (progress s2) = completion_percentage (progress s1)"
    "length (checkpoint_history s2) = length (checkpoint_history s1) + 1"
    using create_checkpoint_success_idempotent [of "[]" fresh_world "''home''"]
    unfolding initialized_world_def run.simps snd_conv by blast
  have "''home'' \<in> set (pages_remaining (progress s))"
    using f(1) by (auto simp add: initialized_world_def initialize_session_run page_keys_eq)
  then show ?thesis using f by blast
qed


section \<open>The accessibility phase\<close>

lemmas phase_defs = test_page_accessibility_def io_defs update_error_count_def increment_level_def
        save_test_results_def result_def any_fail_def Let_def

lemma length_healthy_page: "length healthy_page = 171"
  by (simp add: healthy_page_def)

lemma healthy_response_fields:
  "status_code healthy_response = 200" "elapsed_ms healthy_response = 500"
  "length (content healthy_response) = 5000"
  by (simp_all add: healthy_response_def length_healthy_page)

lemma healthy_session:
  "session_file healthy_world = Some (the (session_file initialized_world))"
  by (simp add: healthy_world_def initialized_session [symmetric])

lemma healthy_get:
  "requests_get healthy_world (requests_made healthy_world) u = Response healthy_response"
  by (simp add: healthy_world_def)


text \<open>
  Claim C7. With a session document on disk and a response to the page's request, the
  accessibility phase records exactly three sub-checks, classified by the fixed
  thresholds: \<^verbatim>\<open>http_status\<close> is PASS for status 200 and FAIL (one more high) otherwise;
  \<^verbatim>\<open>response_time\<close> is PASS below 3000 ms, WARN (one more medium) below 5000 ms and FAIL
  (one more high) from there on; \<^verbatim>\<open>content_length\<close> is PASS above 1000 bytes and WARN
  (one more low) otherwise. The phase returns pass exactly when no sub-check is FAIL, and
  \<^verbatim>\<open>total\<close> grows by the number of findings. For status 200, 500 ms and 5000 bytes all
  three are PASS, the phase returns pass and the session document, with its error tally,
  is unchanged.
\<close>

theorem accessibility_thresholds:
  assumes "session_file w = Some s"
    and "requests_get w (requests_made w) page_url = Response resp"
  shows "fst (test_page_accessibility page_name page_url w)
           = Inr (status_code resp = 200 \<and> elapsed_ms resp < 5000)
       \<and> map_option (\<lambda>rd. map (\<lambda>r. (test r, status r)) (rd_results rd))
            (results_files (snd (test_page_accessibility page_name page_url w))
               (results_file_name page_name ''accessibility''))
           = Some [(''http_status'', if status_code resp = 200 then ''PASS'' else ''FAIL''),
                   (''response_time'', if elapsed_ms resp < 3000 then ''PASS''
                                       else if elapsed_ms resp < 5000 then ''WARN'' else ''FAIL''),
                   (''content_length'', if int (length (content resp)) > 1000 then ''PASS''
                                        else ''WARN'')]
       \<and> map_option error_summary (session_file (snd (test_page_accessibility page_name page_url w)))
           = Some ((error_summary s)
               \<lparr>high := high (error_summary s) + (if status_code resp = 200 then 0 else 1)
                                               + (if elapsed_ms resp < 5000 then 0 else 1),
                medium := medium (error_summary s)
                            + (if 3000 \<le> elapsed_ms resp \<and> elapsed_ms resp < 5000 then 1 else 0),
                low := low (error_summary s) + (if int (length (content resp)) > 1000 then 0 else 1),
                total := total (error_summary s) + (if status_code resp = 200 then 0 else 1)
                           + (if elapsed_ms resp < 3000 then 0 else 1)
                           + (if int (length (content resp)) > 1000 then 0 else 1)\<rparr>)
       \<and> (status_code resp = 200 \<and> elapsed_ms resp = 500 \<and> length (content resp) = 5000 \<longrightarrow>
            fst (test_page_accessibility page_name page_url w) = Inr True
          \<and> map_option (\<lambda>rd. map status (rd_results rd))
               (results_files (snd (test_page_accessibility page_name page_url w))
                  (results_file_name page_name ''accessibility''))
              = Some [''PASS'', ''PASS'', ''PASS'']
          \<and> session_file (snd (test_page_accessibility page_name page_url w)) = Some s)"
proof -
  consider (fast) "elapsed_ms resp < 3000" | (slow) "3000 \<le> elapsed_ms resp" "elapsed_ms resp < 5000"
    | (late) "5000 \<le> elapsed_ms resp" by linarith
  then show ?thesis
  proof cases
    case fast
    show ?thesis
      by (cases "status_code resp = 200"; cases "int (length (content resp)) > 1000")
         (use assms fast in \<open>simp_all add: phase_defs\<close>)
  next
    case slow
    show ?thesis
      by (cases "status_code resp = 200"; cases "int (length (content resp)) > 1000")
         (use assms slow in \<open>simp_all add: phase_defs\<close>)
  next
    case late
    show ?thesis
      by (cases "status_code resp = 200"; cases "int (length (content resp)) > 1000")
         (use assms late in \<open>simp_all add: phase_defs\<close>)
  qed
qed


theorem accessibility_thresholds_witness:
  "session_file healthy_world = Some (the (session_file initialized_world))
   \<and> requests_get healthy_world (requests_made healthy_world) ''http://localhost:3000/''
       = Response healthy_response
   \<and> status_code healthy_response = 200 \<and> elapsed_ms healthy_response = 500
   \<and> length (content healthy_response) = 5000
   \<and> fst (test_page_accessibility ''home'' ''http://localhost:3000/'' healthy_world) = Inr True
   \<and> map_option (\<lambda>rd. map status (rd_results rd))
        (results_files (snd (test_page_accessibility ''home'' ''http://localhost:3000/'' healthy_world))
           (results_file_name ''home'' ''accessibility''))
       = Some [''PASS'', ''PASS'', ''PASS'']
   \<and> session_file (snd (test_page_accessibility ''home'' ''http://localhost:3000/'' healthy_world))
       = Some (the (session_file initialized_world))"
  using accessibility_thresholds [OF healthy_session healthy_get [of "''http://localhost:3000/''"],
          where page_name = "''home''"]
    healthy_session healthy_get [of "''http://localhost:3000/''"] healthy_response_fields
  by simp


section \<open>Rules for the phases\<close>

text \<open>
  The phases nest many conditionals. Instead of unfolding them, their properties are
  derived by rules that follow the structure of a computation.
\<close>

lemma frame_refl: "session_file w = Some s \<Longrightarrow> frame 0 w w"
  by (simp add: frame_def)

lemma frame_trans: "frame j w w1 \<Longrightarrow> frame k w1 w2 \<Longrightarrow> frame (j + k) w w2"
  by (auto simp add: frame_def)

lemma post_return: "Q x \<Longrightarrow> post 0 (return_io x) Q"
  by (simp add: post_def return_io_def frame_refl)

lemma post_bind:
  assumes "post j m P" "\<And>x. P x \<Longrightarrow> post k (f x) Q"
  shows "post (j + k) (bind_io m f) Q"
  unfolding post_def
proof (intro allI impI)
  fix w :: world and s assume s: "session_file w = Some s"
  obtain x where x: "fst (m w) = Inr x" "P x" and f1: "frame j w (snd (m w))"
    using assms(1) s unfolding post_def by blast
  obtain s1 where s1: "session_file (snd (m w)) = Some s1"
    using f1 by (auto simp add: frame_def)
  have p2: "post k (f x) Q" using assms(2) x(2) by blast
  obtain y where y: "fst (f x (snd (m w))) = Inr y" "Q y"
    and f2: "frame k (snd (m w)) (snd (f x (snd (m w))))"
    using p2 s1 unfolding post_def by blast
  have b: "bind_io m f w = f x (snd (m w))"
    using x(1) by (cases "m w") (simp add: bind_io_def)
  show "(\<exists>x. fst (bind_io m f w) = Inr x \<and> Q x) \<and> frame (j + k) w (snd (bind_io m f w))"
    using b y f1 f2 frame_trans by auto
qed

lemma post_bind0: "post 0 m (\<lambda>_. True) \<Longrightarrow> (\<And>x. post k (f x) Q) \<Longrightarrow> post k (bind_io m f) Q"
  using post_bind [of 0 m "\<lambda>_. True" k f Q] by simp

lemma post_bind_http: "(\<And>r. post k (f r) Q) \<Longrightarrow> post (Suc k) (bind_io (http_get u) f) Q"
proof -
  assume a: "\<And>r. post k (f r) Q"
  have "post 1 (http_get u) (\<lambda>_. True)"
    by (simp add: post_def http_get_def frame_def)
  then show ?thesis using post_bind [of 1 "http_get u" "\<lambda>_. True" k f Q] a by simp
qed

lemma post_time: "post 0 time_now (\<lambda>_. True)"
  by (simp add: post_def time_now_def frame_def)

lemma post_if: "(c \<Longrightarrow> post k a Q) \<Longrightarrow> (\<not> c \<Longrightarrow> post k b Q) \<Longrightarrow> post k (if c then a else b) Q"
  by simp

lemma post_weaken: "post k m P \<Longrightarrow> (\<And>x. P x \<Longrightarrow> Q x) \<Longrightarrow> post k m Q"
  unfolding post_def by blast

lemma post_count:
  "l \<in> {''critical'', ''high'', ''medium'', ''low''} \<Longrightarrow> post 0 (update_error_count l) (\<lambda>_. True)"
  by (elim insertE emptyE)
     (simp_all add: post_def update_error_count_def io_defs increment_level_def frame_def)

lemma post_save: "post 0 (save_test_results p ph rs) (\<lambda>_. True)"
  by (simp add: post_def save_test_results_def io_defs frame_def)

lemma det_return: "det (return_io x)"
  unfolding det_def by (rule exI [of _ x]) (simp add: post_return)

lemma det_bind:
  assumes "det m" "\<And>x. det (f x)"
  shows "det (bind_io m f)"
proof -
  obtain v where v: "post 0 m (\<lambda>x. x = v)" using assms(1) unfolding det_def by blast
  obtain u where u: "post 0 (f v) (\<lambda>x. x = u)" using assms(2) [of v] unfolding det_def by blast
  have "post (0 + 0) (bind_io m f) (\<lambda>x. x = u)"
    by (rule post_bind [OF v]) (use u in simp)
  then show ?thesis unfolding det_def by auto
qed

lemma det_if: "(c \<Longrightarrow> det a) \<Longrightarrow> (\<not> c \<Longrightarrow> det b) \<Longrightarrow> det (if c then a else b)"
  by simp

lemma det_unit: "post 0 m (\<lambda>_. True) \<Longrightarrow> det (m :: unit io)"
  unfolding det_def by (rule exI [of _ "()"]) (auto elim: post_weaken)

lemma det_count:
  "l \<in> {''critical'', ''high'', ''medium'', ''low''} \<Longrightarrow> det (update_error_count l)"
  by (rule det_unit) (rule post_count)

lemma det_save: "det (save_test_results p ph rs)"
  by (rule det_unit) (rule post_save)

lemmas det_rules = det_bind det_if det_return det_save det_count

section \<open>The verdict of a phase depends on its response only\<close>

lemma phase_verdict:
  assumes "phase = bind_io (http_get u) body" "\<And>r. det (body r)"
    and "session_file (w :: world) = Some s"
  shows "\<exists>b. fst (phase w) = Inr b \<and> frame 1 w (snd (phase w))
           \<and> (\<forall>w2 s2. session_file w2 = Some s2 \<longrightarrow>
                 requests_get w2 (requests_made w2) u = requests_get w (requests_made w) u \<longrightarrow>
                 fst (phase w2) = Inr b)"
proof -
  let ?r = "requests_get w (requests_made w) u"
  obtain v where v: "post 0 (body ?r) (\<lambda>x. x = v)"
    using assms(2) [of ?r] unfolding det_def by blast
  have run: "phase w' = body (requests_get w' (requests_made w') u)
                          (w'\<lparr>requests_made := requests_made w' + 1\<rparr>)" for w'
    by (simp add: assms(1) bind_io_def http_get_def)
  have val: "fst (phase w') = Inr v
             \<and> frame 0 (w'\<lparr>requests_made := requests_made w' + 1\<rparr>) (snd (phase w'))"
    if "session_file w' = Some s'" "requests_get w' (requests_made w') u = ?r" for w' s'
  proof -
    have "session_file (w'\<lparr>requests_made := requests_made w' + 1\<rparr>) = Some s'"
      using that(1) by simp
    then show ?thesis using v that(2) unfolding post_def run by auto
  qed
  have "frame 1 w (snd (phase w))"
    using val [OF assms(3) refl] assms(3) by (auto simp add: frame_def)
  then show ?thesis using val [OF assms(3) refl] val by blast
qed

lemma accessibility_verdict:
  assumes "session_file (w :: world) = Some s"
  shows "\<exists>b. fst (test_page_accessibility p u w) = Inr b
           \<and> frame 1 w (snd (test_page_accessibility p u w))
           \<and> (\<forall>w2 s2. session_file w2 = Some s2 \<longrightarrow>
                 requests_get w2 (requests_made w2) u = requests_get w (requests_made w) u \<longrightarrow>
                 fst (test_page_accessibility p u w2) = Inr b)"
  apply (rule phase_verdict [OF test_page_accessibility_def _ assms])
  subgoal for r
    unfolding Let_def
    by (cases r) (simp_all only: http_result.case, (intro det_rules | simp)+)
  done

lemma navigation_verdict:
  assumes "session_file (w :: world) = Some s"
  shows "\<exists>b. fst (test_page_navigation p u w) = Inr b
           \<and> frame 1 w (snd (test_page_navigation p u w))
           \<and> (\<forall>w2 s2. session_file w2 = Some s2 \<longrightarrow>
                 requests_get w2 (requests_made w2) u = requests_get w (requests_made w) u \<longrightarrow>
                 fst (test_page_navigation p u w2) = Inr b)"
  apply (rule phase_verdict [OF test_page_navigation_def _ assms])
  subgoal for r
    unfolding Let_def split_beta
    by (cases r) (simp_all only: http_result.case, (intro det_rules | simp)+)
  done

lemma specific_functionality_det: "det (test_page_specific_functionality p c rs)"
  unfolding test_page_specific_functionality_def
  by (intro det_rules | simp)+

lemma functionality_verdict:
  assumes "session_file (w :: world) = Some s"
  shows "\<exists>b. fst (test_page_functionality p u w) = Inr b
           \<and> frame 1 w (snd (test_page_functionality p u w))
           \<and> (\<forall>w2 s2. session_file w2 = Some s2 \<longrightarrow>
                 requests_get w2 (requests_made w2) u = requests_get w (requests_made w) u \<longrightarrow>
                 fst (test_page_functionality p u w2) = Inr b)"
  apply (rule phase_verdict [OF test_page_functionality_def _ assms])
  subgoal for r
    unfolding Let_def
    by (cases r)
       (simp_all only: http_result.case, (intro det_rules specific_functionality_det | simp)+)
  done

lemma post_case_http:
  "(\<And>resp. post k (a resp) Q) \<Longrightarrow> (\<And>e. post k (b e) Q) \<Longrightarrow>
   post k (case r of Response resp \<Rightarrow> a resp | RequestException e \<Rightarrow> b e) Q"
  by (cases r) simp_all

lemma error_handling_post: "post (Suc (Suc 0)) (test_error_handling p u) (\<lambda>b. b = True)"
  unfolding test_error_handling_def Let_def
  apply (rule post_bind0 [OF post_time])
  apply (rule post_bind_http)
  apply (rule post_bind0)
   apply (rule post_case_http)
    apply (rule post_if)
     apply (rule post_return, simp)
    apply (rule post_bind0 [OF post_count], simp)
    apply (rule post_return, simp)
   apply (rule post_return, simp)
  apply (rule post_bind_http)
  apply (rule post_bind0 [OF post_save])
  apply (rule post_return, simp)
  done

lemma error_handling_verdict:
  assumes "session_file (w :: world) = Some s"
  shows "fst (test_error_handling p u w) = Inr True"
    and "frame 2 w (snd (test_error_handling p u w))"
  using error_handling_post [of p u] assms unfolding post_def
  by (auto simp add: numeral_2_eq_2)

section \<open>One page audit, step by step\<close>

lemma triple_bind:
  assumes "triple P m R" "\<And>x. triple (R x) (f x) Q"
  shows "triple P (bind_io m f) Q"
  unfolding triple_def
proof (intro allI impI)
  fix w assume "P w"
  then obtain x where x: "fst (m w) = Inr x" "R x (snd (m w))"
    using assms(1) unfolding triple_def by blast
  have b: "bind_io m f w = f x (snd (m w))"
    using x(1) by (cases "m w") (simp add: bind_io_def)
  show "\<exists>y. fst (bind_io m f w) = Inr y \<and> Q y (snd (bind_io m f w))"
    using assms(2) [of x] x(2) unfolding triple_def b by blast
qed

lemma triple_bind_value:
  assumes "triple P m (\<lambda>x w. x = v \<and> R w)" "triple R (f v) Q"
  shows "triple P (bind_io m f) Q"
proof (rule triple_bind [OF assms(1)])
  fix x show "triple (\<lambda>w. x = v \<and> R w) (f x) Q"
    using assms(2) unfolding triple_def by blast
qed

lemma triple_return: "(\<And>w. P w \<Longrightarrow> Q x w) \<Longrightarrow> triple P (return_io x) Q"
  by (simp add: triple_def return_io_def)

lemma triple_pre: "(\<And>w. P w \<Longrightarrow> P' w) \<Longrightarrow> triple P' m Q \<Longrightarrow> triple P m Q"
  unfolding triple_def by blast

lemma stage_frame: "stage w0 k h w \<Longrightarrow> frame j w w' \<Longrightarrow> stage w0 (k + j) h w'"
  by (auto simp add: stage_def frame_def)

lemma micro_triple:
  "triple (stage w0 k h) (create_micro_checkpoint p ph st)
     (\<lambda>_. stage w0 k (h @ [(''MICRO'', Some ph, st)]))"
  unfolding triple_def
proof (intro allI impI)
  fix w assume a: "stage w0 k h w"
  then obtain s where s: "session_file w = Some s" by (auto simp add: stage_def)
  show "\<exists>x. fst (create_micro_checkpoint p ph st w) = Inr x
          \<and> stage w0 k (h @ [(''MICRO'', Some ph, st)]) (snd (create_micro_checkpoint p ph st w))"
    using a s by (auto simp add: create_micro_checkpoint_run [OF s] Let_def stage_def)
qed

lemma macro_triple:
  assumes "session_file w0 = Some s0" "total_pages (progress s0) \<noteq> 0"
  shows "triple (stage w0 k h) (create_checkpoint p st)
     (\<lambda>_. stage w0 k (h @ [(''MACRO'', Some ''complete'', st)]))"
  unfolding triple_def
proof (intro allI impI)
  fix w assume a: "stage w0 k h w"
  then obtain s where s: "session_file w = Some s" "total_pages (progress s) \<noteq> 0"
    using assms by (auto simp add: stage_def)
  have u: "update_progress p (progress s) = Inr (projr (update_progress p (progress s)))"
    and t: "total_pages (projr (update_progress p (progress s))) = total_pages (progress s)"
    using update_progress_ok [OF s(2), of p] by simp_all
  show "\<exists>x. fst (create_checkpoint p st w) = Inr x
          \<and> stage w0 k (h @ [(''MACRO'', Some ''complete'', st)]) (snd (create_checkpoint p st w))"
  proof (cases "st = ''SUCCESS''")
    case True
    then show ?thesis
      using a s t
      by (auto simp add: create_checkpoint_success [OF s(1) u] stage_def macro_session_def Let_def)
  next
    case False
    then show ?thesis
      using a s
      by (auto simp add: create_checkpoint_other [OF s(1) False] stage_def macro_session_def Let_def)
  qed
qed

lemma summary_triple:
  "triple (stage w0 k h) (create_page_summary p u os prs) (\<lambda>_. stage w0 k h)"
  by (auto simp add: triple_def create_page_summary_def io_defs stage_def)

lemma step_micro:
  "(\<And>cid. triple (stage w0 k (h @ [(''MICRO'', Some ph, st)])) (f cid) Q) \<Longrightarrow>
   triple (stage w0 k h) (bind_io (create_micro_checkpoint p ph st) f) Q"
  by (rule triple_bind [OF micro_triple])

lemma step_macro:
  "session_file w0 = Some s0 \<Longrightarrow> total_pages (progress s0) \<noteq> 0 \<Longrightarrow>
   (\<And>cid. triple (stage w0 k (h @ [(''MACRO'', Some ''complete'', st)])) (f cid) Q) \<Longrightarrow>
   triple (stage w0 k h) (bind_io (create_checkpoint p st) f) Q"
  by (rule triple_bind [OF macro_triple])

lemma step_summary:
  "(\<And>x. triple (stage w0 k h) (f x) Q) \<Longrightarrow>
   triple (stage w0 k h) (bind_io (create_page_summary p u os prs) f) Q"
  by (rule triple_bind [OF summary_triple])

lemma step_block:
  assumes "triple (stage w0 k (h @ [(''MICRO'', Some ph, if c then st1 else st2)]))
             (f (if c then x1 else x2)) Q"
  shows "triple (stage w0 k h)
           (bind_io (if c then bind_io (create_micro_checkpoint p ph st1) (\<lambda>_. return_io x1)
                     else bind_io (create_micro_checkpoint p ph st2) (\<lambda>_. return_io x2)) f) Q"
proof (rule triple_bind_value [where v = "if c then x1 else x2"
      and R = "stage w0 k (h @ [(''MICRO'', Some ph, if c then st1 else st2)])"])
  show "triple (stage w0 k (h @ [(''MICRO'', Some ph, if c then st1 else st2)]))
          (f (if c then x1 else x2)) Q"
    by (rule assms)
  show "triple (stage w0 k h)
          (if c then bind_io (create_micro_checkpoint p ph st1) (\<lambda>_. return_io x1)
           else bind_io (create_micro_checkpoint p ph st2) (\<lambda>_. return_io x2))
          (\<lambda>x w. x = (if c then x1 else x2)
                 \<and> stage w0 k (h @ [(''MICRO'', Some ph, if c then st1 else st2)]) w)"
    by (cases c) (auto intro!: triple_bind [OF micro_triple] triple_return)
qed

lemma phase_triple:
  assumes v: "\<And>(w :: world) s. session_file w = Some s \<Longrightarrow>
      \<exists>b. fst (phase w) = Inr b \<and> frame 1 w (snd (phase w))
           \<and> (\<forall>w2 s2. session_file w2 = Some s2 \<longrightarrow>
                 requests_get w2 (requests_made w2) u = requests_get w (requests_made w) u \<longrightarrow>
                 fst (phase w2) = Inr b)"
  shows "triple (stage w0 k h) phase
           (\<lambda>x w. x = (fst (phase (probe w0 k)) = Inr True) \<and> stage w0 (k + 1) h w)"
  unfolding triple_def
proof (intro allI impI)
  fix w assume a: "stage w0 k h w"
  then obtain s s0 where s: "session_file w = Some s" "session_file w0 = Some s0"
    by (auto simp add: stage_def)
  obtain b where b: "fst (phase w) = Inr b" "frame 1 w (snd (phase w))"
    "\<forall>w2 s2. session_file w2 = Some s2 \<longrightarrow>
       requests_get w2 (requests_made w2) u = requests_get w (requests_made w) u \<longrightarrow>
       fst (phase w2) = Inr b"
    using v [OF s(1)] by blast
  have "session_file (probe w0 k) = Some s0"
    "requests_get (probe w0 k) (requests_made (probe w0 k)) u = requests_get w (requests_made w) u"
    using a s by (simp_all add: probe_def stage_def)
  then have "fst (phase (probe w0 k)) = Inr b" using b(3) by blast
  then have "b = (fst (phase (probe w0 k)) = Inr True)" by auto
  then show "\<exists>x. fst (phase w) = Inr x
      \<and> x = (fst (phase (probe w0 k)) = Inr True) \<and> stage w0 (k + 1) h (snd (phase w))"
    using b(1) stage_frame [OF a b(2)] by auto
qed

lemma step_accessibility:
  "triple (stage w0 (k + 1) h) (f (fst (test_page_accessibility p u (probe w0 k)) = Inr True)) Q \<Longrightarrow>
   triple (stage w0 k h) (bind_io (test_page_accessibility p u) f) Q"
  by (rule triple_bind_value [OF phase_triple]) (rule accessibility_verdict)

lemma step_navigation:
  "triple (stage w0 (k + 1) h) (f (fst (test_page_navigation p u (probe w0 k)) = Inr True)) Q \<Longrightarrow>
   triple (stage w0 k h) (bind_io (test_page_navigation p u) f) Q"
  by (rule triple_bind_value [OF phase_triple]) (rule navigation_verdict)

lemma step_functionality:
  "triple (stage w0 (k + 1) h) (f (fst (test_page_functionality p u (probe w0 k)) = Inr True)) Q \<Longrightarrow>
   triple (stage w0 k h) (bind_io (test_page_functionality p u) f) Q"
  by (rule triple_bind_value [OF phase_triple]) (rule functionality_verdict)

lemma error_handling_triple:
  "triple (stage w0 k h) (test_error_handling p u) (\<lambda>x w. x = True \<and> stage w0 (k + 2) h w)"
  unfolding triple_def
proof (intro allI impI)
  fix w assume a: "stage w0 k h w"
  then obtain s where s: "session_file w = Some s" by (auto simp add: stage_def)
  show "\<exists>x. fst (test_error_handling p u w) = Inr x
      \<and> x = True \<and> stage w0 (k + 2) h (snd (test_error_handling p u w))"
    using error_handling_verdict(1) [OF s, of p u]
      stage_frame [OF a error_handling_verdict(2) [OF s, of p u]] by auto
qed

lemma step_error_handling:
  "triple (stage w0 (k + 2) h) (f True) Q \<Longrightarrow>
   triple (stage w0 k h) (bind_io (test_error_handling p u) f) Q"
  by (rule triple_bind_value [OF error_handling_triple])

lemma case_prod_if:
  "case_prod g (if c then (a, b) else (a', b')) = g (if c then a else a') (if c then b else b')"
  by simp

lemma stage_start:
  assumes "session_file w = Some s"
  shows "stage w 0 [] (w\<lparr>ticks := t, session_file := Some (s\<lparr>current_operation := co\<rparr>)\<rparr>)"
  using assms by (simp add: stage_def)

lemma audit_page_entry:
  assumes "session_file w = Some s" "map_of pages p = Some info"
    and "audit_page p = (case map_of pages p of None \<Rightarrow> return_io False
           | Some i \<Rightarrow> bind_io load_session (\<lambda>s. bind_io datetime_now (\<lambda>started.
               bind_io (save_session (s\<lparr>current_operation := co started\<rparr>)) (\<lambda>_. rest i))))"
    and "triple (stage w 0 []) (rest info) Q"
  shows "\<exists>x. fst (audit_page p w) = Inr x \<and> Q x (snd (audit_page p w))"
proof -
  have "audit_page p w
      = rest info (w\<lparr>ticks := ticks w + 1,
               session_file := Some (s\<lparr>current_operation := co (utc_now w (ticks w))\<rparr>)\<rparr>)"
    using assms(1,2) by (simp add: assms(3) io_defs)
  then show ?thesis
    using assms(4) stage_start [OF assms(1)] unfolding triple_def by auto
qed

lemma audit_page_trace:
  assumes "session_file w = Some s" "total_pages (progress s) \<noteq> 0"
    "map_of pages p = Some info"
  shows "\<exists>x. fst (audit_page p w) = Inr x
      \<and> (x = (fst (test_page_accessibility p (url info) (probe w 0)) = Inr True
              \<and> fst (test_page_functionality p (url info) (probe w 2)) = Inr True)
         \<and> stage w 5
              (audit_trace (fst (test_page_accessibility p (url info) (probe w 0)) = Inr True)
                           (fst (test_page_navigation p (url info) (probe w 1)) = Inr True)
                           (fst (test_page_functionality p (url info) (probe w 2)) = Inr True))
              (snd (audit_page p w)))"
  apply (rule audit_page_entry [OF assms(1) assms(3) audit_page_def [unfolded Let_def],
      where Q = "\<lambda>x w'. x = (fst (test_page_accessibility p (url info) (probe w 0)) = Inr True
              \<and> fst (test_page_functionality p (url info) (probe w 2)) = Inr True)
         \<and> stage w 5
              (audit_trace (fst (test_page_accessibility p (url info) (probe w 0)) = Inr True)
                           (fst (test_page_navigation p (url info) (probe w 1)) = Inr True)
                           (fst (test_page_functionality p (url info) (probe w 2)) = Inr True))
              w'"])
  apply (rule step_micro)
  apply (rule step_accessibility)
  apply (rule step_block)
  apply (simp only: case_prod_if)
  apply (rule step_micro)
  apply (rule step_navigation)
  apply (rule step_block)
  apply (rule step_micro)
  apply (rule step_functionality)
  apply (rule step_block)
  apply (simp only: case_prod_if)
  apply (rule step_micro)
  apply (rule step_error_handling)
  apply (rule step_block)
  apply (rule step_summary)
  apply (rule step_macro [OF assms(1,2)])
  apply (rule triple_return)
  apply (auto simp add: audit_trace_def eval_nat_numeral split: if_splits)
  done

section \<open>A page that passes\<close>

lemma plain_session: "session_file plain_world = Some (the (session_file initialized_world))"
  by (simp add: plain_world_def initialized_session [symmetric])

lemma plain_content: "lower (text_body plain_response) = ''<link rel=stylesheet><script></script>''"
  by (simp add: plain_response_def lower_def lower_char_def)

lemma plain_checks:
  "contains ''<script'' ''<link rel=stylesheet><script></script>''"
  "contains ''stylesheet'' ''<link rel=stylesheet><script></script>''"
  by (simp_all add: starts_with_def)

lemma plain_accessibility:
  "fst (test_page_accessibility ''home'' ''http://localhost:3000/'' plain_world) = Inr True"
proof -
  obtain s0 where s: "session_file plain_world = Some s0"
    using plain_session by blast
  have g: "requests_get plain_world n u = Response plain_response" for n u
    by (simp add: plain_world_def)
  show ?thesis
    by (simp add: test_page_accessibility_def s g plain_response_def
          io_defs update_error_count_def increment_level_def
          save_test_results_def result_def any_fail_def Let_def)
qed

lemma plain_functionality:
  "fst (test_page_functionality ''home'' ''http://localhost:3000/''
         (plain_world\<lparr>requests_made := requests_made plain_world + 2\<rparr>)) = Inr True"
proof -
  obtain s0 where s0: "session_file plain_world = Some s0"
    using plain_session by blast
  have g: "requests_get plain_world n u = Response plain_response" for n u
    by (simp add: plain_world_def)
  have s: "session_file (plain_world\<lparr>requests_made := requests_made plain_world + 2\<rparr>)
             = Some s0"
    using s0 by simp
  show ?thesis
    by (simp add: test_page_functionality_def test_page_specific_functionality_def
          g s s0 plain_content plain_checks type_button_def type_submit_def count_str_def
          starts_with_def io_defs update_error_count_def increment_level_def
          save_test_results_def result_def any_fail_def Let_def)
qed

lemma initialized_total_pages:
  "total_pages (progress (the (session_file initialized_world))) \<noteq> 0"
  by (simp add: initialized_world_def initialize_session_run)

lemma home_page:
  "map_of pages ''home'' = Some \<lparr>url = ''http://localhost:3000/'', name = ''Home'',
                                   category = ''core'', risk_level = ''low''\<rparr>"
  by (simp add: pages_def)

lemma probe_0: "probe w 0 = w"
  by (simp add: probe_def)

lemma error_handling_never_false: "fst (test_error_handling p u w) \<noteq> Inr False"
proof (cases "session_file w")
  case (Some s)
  then show ?thesis using error_handling_verdict(1) [OF Some, of p u] by simp
next
  case None
  then show ?thesis
    by (auto simp add: test_error_handling_def io_defs update_error_count_def
          save_test_results_def Let_def split: http_result.splits)
qed

lemma stage_last:
  assumes "stage w k (audit_trace a n f) w'" "session_file w = Some s"
  shows "\<exists>s' new. session_file w' = Some s' \<and> checkpoint_history s' = checkpoint_history s @ new
           \<and> map (\<lambda>c. (cp_type c, cp_phase c, cp_status c)) new = audit_trace a n f
           \<and> checkpoint_history s' \<noteq> []
           \<and> cp_type (last (checkpoint_history s')) = ''MACRO''
           \<and> cp_status (last (checkpoint_history s')) = (if a \<and> f then ''SUCCESS'' else ''FAILED'')"
proof -
  obtain s' new where n: "session_file w' = Some s'"
    "checkpoint_history s' = checkpoint_history s @ new"
    "map (\<lambda>c. (cp_type c, cp_phase c, cp_status c)) new = audit_trace a n f"
    using assms by (auto simp add: stage_def)
  have ne: "new \<noteq> []" using n(3) by (auto simp add: audit_trace_def)
  have "(\<lambda>c. (cp_type c, cp_phase c, cp_status c)) (last new) = last (audit_trace a n f)"
    using n(3) ne by (metis last_map)
  then have "cp_type (last new) = ''MACRO''"
    "cp_status (last new) = (if a \<and> f then ''SUCCESS'' else ''FAILED'')"
    by (simp_all add: audit_trace_def)
  then show ?thesis using n ne by auto
qed

section \<open>The overall status of a page\<close>

text \<open>
  Claim C5. For a page of the page table, in a world with a session document whose
  \<^verbatim>\<open>total_pages\<close> is not zero, \<^verbatim>\<open>audit_page\<close> returns, and it reports success exactly when
  the accessibility phase passes on the response it receives (the first request) and the
  functionality phase passes on the response it receives (the third request). The macro
  checkpoint it appends last carries \<^verbatim>\<open>SUCCESS\<close> in that case and \<^verbatim>\<open>FAILED\<close> otherwise.
  The responses to the navigation request and to the two error-handling requests do not
  matter: any server that answers the first and the third request alike gives the same
  result.
\<close>

theorem audit_page_overall_status:
  assumes "session_file w = Some s" "total_pages (progress s) \<noteq> 0"
    "map_of pages page_name = Some info"
  shows "fst (audit_page page_name w)
           = Inr (fst (test_page_accessibility page_name (url info) w) = Inr True
                \<and> fst (test_page_functionality page_name (url info)
                         (w\<lparr>requests_made := requests_made w + 2\<rparr>)) = Inr True)
       \<and> (\<exists>s'. session_file (snd (audit_page page_name w)) = Some s'
             \<and> checkpoint_history s' \<noteq> []
             \<and> cp_type (last (checkpoint_history s')) = ''MACRO''
             \<and> cp_status (last (checkpoint_history s'))
                 = (if fst (test_page_accessibility page_name (url info) w) = Inr True
                     \<and> fst (test_page_functionality page_name (url info)
                              (w\<lparr>requests_made := requests_made w + 2\<rparr>)) = Inr True
                    then ''SUCCESS'' else ''FAILED''))
       \<and> (\<forall>g. g (requests_made w) (url info) = requests_get w (requests_made w) (url info) \<longrightarrow>
              g (requests_made w + 2) (url info) = requests_get w (requests_made w + 2) (url info) \<longrightarrow>
              fst (audit_page page_name (w\<lparr>requests_get := g\<rparr>)) = fst (audit_page page_name w))"
proof -
  let ?A = "\<lambda>w. fst (test_page_accessibility page_name (url info) w) = Inr True"
  let ?F = "\<lambda>w. fst (test_page_functionality page_name (url info)
                       (w\<lparr>requests_made := requests_made w + 2\<rparr>)) = Inr True"
  have verdict: "fst (audit_page page_name v) = Inr (?A v \<and> ?F v)"
    if "session_file v = Some s" for v
    using audit_page_trace [OF that assms(2,3)] by (auto simp add: probe_def)
  have part1: "fst (audit_page page_name w) = Inr (?A w \<and> ?F w)"
    by (rule verdict [OF assms(1)])
  have x: "stage w 5
      (audit_trace (fst (test_page_accessibility page_name (url info) (probe w 0)) = Inr True)
                   (fst (test_page_navigation page_name (url info) (probe w 1)) = Inr True)
                   (fst (test_page_functionality page_name (url info) (probe w 2)) = Inr True))
      (snd (audit_page page_name w))"
    using audit_page_trace [OF assms] by blast
  have part2: "\<exists>s'. session_file (snd (audit_page page_name w)) = Some s'
             \<and> checkpoint_history s' \<noteq> []
             \<and> cp_type (last (checkpoint_history s')) = ''MACRO''
             \<and> cp_status (last (checkpoint_history s'))
                 = (if ?A w \<and> ?F w then ''SUCCESS'' else ''FAILED'')"
    using stage_last [OF x assms(1)] by (auto simp add: probe_def)
  have part3: "fst (audit_page page_name (w\<lparr>requests_get := g\<rparr>)) = fst (audit_page page_name w)"
    if g: "g (requests_made w) (url info) = requests_get w (requests_made w) (url info)"
      "g (requests_made w + 2) (url info) = requests_get w (requests_made w + 2) (url info)" for g
  proof -
    let ?v = "w\<lparr>requests_get := g\<rparr>"
    have sv: "session_file ?v = Some s" using assms(1) by simp
    obtain a where a: "fst (test_page_accessibility page_name (url info) w) = Inr a"
      "\<forall>w2 s2. session_file w2 = Some s2 \<longrightarrow>
         requests_get w2 (requests_made w2) (url info) = requests_get w (requests_made w) (url info) \<longrightarrow>
         fst (test_page_accessibility page_name (url info) w2) = Inr a"
      using accessibility_verdict [OF assms(1), of page_name "url info"] by blast
    have "fst (test_page_accessibility page_name (url info) ?v) = Inr a"
      using a(2) sv g(1) by simp
    then have A: "?A ?v = ?A w" using a(1) by simp
    let ?w2 = "w\<lparr>requests_made := requests_made w + 2\<rparr>"
    have s2: "session_file ?w2 = Some s" using assms(1) by simp
    obtain f where f: "fst (test_page_functionality page_name (url info) ?w2) = Inr f"
      "\<forall>w3 s3. session_file w3 = Some s3 \<longrightarrow>
         requests_get w3 (requests_made w3) (url info) = requests_get ?w2 (requests_made ?w2) (url info) \<longrightarrow>
         fst (test_page_functionality page_name (url info) w3) = Inr f"
      using functionality_verdict [OF s2, of page_name "url info"] by blast
    have "fst (test_page_functionality page_name (url info)
                (?v\<lparr>requests_made := requests_made ?v + 2\<rparr>)) = Inr f"
      using f(2) assms(1) g(2) by simp
    then have F: "?F ?v = ?F w" using f(1) by simp
    show ?thesis using verdict [OF sv] part1 A F by simp
  qed
  show ?thesis using part1 part2 part3 by blast
qed

theorem audit_page_overall_status_witness:
  "session_file plain_world = Some (the (session_file initialized_world))
   \<and> total_pages (progress (the (session_file initialized_world))) \<noteq> 0
   \<and> map_of pages ''home'' = Some \<lparr>url = ''http://localhost:3000/'', name = ''Home'',
                                       category = ''core'', risk_level = ''low''\<rparr>
   \<and> fst (test_page_accessibility ''home'' ''http://localhost:3000/'' plain_world) = Inr True
   \<and> fst (test_page_functionality ''home'' ''http://localhost:3000/''
            (plain_world\<lparr>requests_made := requests_made plain_world + 2\<rparr>)) = Inr True
   \<and> fst (audit_page ''home'' plain_world) = Inr True
   \<and> (\<exists>s'. session_file (snd (audit_page ''home'' plain_world)) = Some s'
          \<and> checkpoint_history s' \<noteq> []
          \<and> cp_type (last (checkpoint_history s')) = ''MACRO''
          \<and> cp_status (last (checkpoint_history s')) = ''SUCCESS'')"
  using audit_page_overall_status [OF plain_session initialized_total_pages home_page]
    plain_session initialized_total_pages home_page plain_accessibility plain_functionality
  by simp

section \<open>The error-handling phase is advisory\<close>

text \<open>
  Claim C8. \<^verbatim>\<open>test_error_handling\<close> never returns failure, whatever the page, the
  responses and the bodies, network errors included: in every world it returns success
  or (only without a session document) raises; with a session document on disk it
  returns success. Consequently a page audit (page of the page table, \<^verbatim>\<open>total_pages\<close>
  not zero) records \<^verbatim>\<open>error_handling_complete\<close> with status \<^verbatim>\<open>SUCCESS\<close>, and none of the
  records it appends has status \<^verbatim>\<open>WARNING\<close>.
\<close>

theorem error_handling_always_succeeds:
  "fst (test_error_handling page_name page_url w) \<noteq> Inr False
   \<and> (\<forall>s. session_file w = Some s \<longrightarrow>
         fst (test_error_handling page_name page_url w) = Inr True)
   \<and> (\<forall>s info. session_file w = Some s \<longrightarrow> total_pages (progress s) \<noteq> 0 \<longrightarrow>
         map_of pages page_name = Some info \<longrightarrow>
         (\<exists>s' new. session_file (snd (audit_page page_name w)) = Some s'
            \<and> checkpoint_history s' = checkpoint_history s @ new
            \<and> (''MICRO'', Some ''error_handling_complete'', ''SUCCESS'')
                 \<in> set (map (\<lambda>c. (cp_type c, cp_phase c, cp_status c)) new)
            \<and> list_all (\<lambda>c. cp_status c \<noteq> ''WARNING'') new))"
proof (intro conjI allI impI)
  show "fst (test_error_handling page_name page_url w) \<noteq> Inr False"
    by (rule error_handling_never_false)
next
  fix s assume "session_file w = Some s"
  then show "fst (test_error_handling page_name page_url w) = Inr True"
    by (rule error_handling_verdict(1))
next
  fix s info
  assume a: "session_file w = Some s" "total_pages (progress s) \<noteq> 0"
    "map_of pages page_name = Some info"
  obtain av nv fv where x: "stage w 5 (audit_trace av nv fv) (snd (audit_page page_name w))"
    using audit_page_trace [OF a] by blast
  obtain s' new where n: "session_file (snd (audit_page page_name w)) = Some s'"
    "checkpoint_history s' = checkpoint_history s @ new"
    "map (\<lambda>c. (cp_type c, cp_phase c, cp_status c)) new = audit_trace av nv fv"
    using stage_last [OF x a(1)] by blast
  have m: "(''MICRO'', Some ''error_handling_complete'', ''SUCCESS'')
             \<in> set (map (\<lambda>c. (cp_type c, cp_phase c, cp_status c)) new)"
    unfolding n(3) by (simp add: audit_trace_def)
  have "\<forall>t\<in>set (audit_trace av nv fv). snd (snd t) \<noteq> ''WARNING''"
    by (simp add: audit_trace_def)
  then have "\<forall>t\<in>set (map (\<lambda>c. (cp_type c, cp_phase c, cp_status c)) new). snd (snd t) \<noteq> ''WARNING''"
    using n(3) by simp
  then have l: "list_all (\<lambda>c. cp_status c \<noteq> ''WARNING'') new"
    by (simp add: list_all_iff)
  show "\<exists>s' new. session_file (snd (audit_page page_name w)) = Some s'
            \<and> checkpoint_history s' = checkpoint_history s @ new
            \<and> (''MICRO'', Some ''error_handling_complete'', ''SUCCESS'')
                 \<in> set (map (\<lambda>c. (cp_type c, cp_phase c, cp_status c)) new)
            \<and> list_all (\<lambda>c. cp_status c \<noteq> ''WARNING'') new"
    using n(1,2) m l by blast
qed

theorem error_handling_always_succeeds_witness:
  "session_file plain_world = Some (the (session_file initialized_world))
   \<and> total_pages (progress (the (session_file initialized_world))) \<noteq> 0
   \<and> map_of pages ''home'' = Some \<lparr>url = ''http://localhost:3000/'', name = ''Home'',
                                       category = ''core'', risk_level = ''low''\<rparr>
   \<and> fst (test_error_handling ''home'' ''http://localhost:3000/'' plain_world) = Inr True
   \<and> (\<exists>s' new. session_file (snd (audit_page ''home'' plain_world)) = Some s'
          \<and> checkpoint_history s' = checkpoint_history (the (session_file initialized_world)) @ new
          \<and> (''MICRO'', Some ''error_handling_complete'', ''SUCCESS'')
               \<in> set (map (\<lambda>c. (cp_type c, cp_phase c, cp_status c)) new)
          \<and> list_all (\<lambda>c. cp_status c \<noteq> ''WARNING'') new)"
  using error_handling_always_succeeds [of "''home''" "''http://localhost:3000/''" plain_world]
    plain_session initialized_total_pages home_page
  by blast

end
